theory Spec2Isabelle
  imports Complex_Main "HOL-Library.Sublist"
begin

section \<open>The Blender connectors of COLIBRI VR\<close>

text \<open>
  The repository holds five Python files under \<^verbatim>\<open>Runtime/ExternalConnectors\<close>:
  \<^verbatim>\<open>Blender_Core.py\<close> (output helpers and the scene reset) and four scripts that Blender
  runs in background mode: \<^verbatim>\<open>Blender_CheckOBJMeshInfo.py\<close> (Inspect),
  \<^verbatim>\<open>Blender_ConvertPLYtoOBJ.py\<close> (Convert), \<^verbatim>\<open>Blender_SimplifyOBJ.py\<close> (Simplify) and
  \<^verbatim>\<open>Blender_SmartUVProjectOBJ.py\<close> (UV-Unwrap).

  Each script is a straight line of calls into Blender's Python interface \<^verbatim>\<open>bpy\<close>. The
  embedding threads one record, the \<open>world\<close>, through these calls: the interpreter's
  \<^verbatim>\<open>sys.argv\<close>, \<^verbatim>\<open>sys.path\<close>, the two output streams as character sequences, the file
  system, and Blender's scene. A Python exception is a value: every operation returns
  either \<open>Return x w\<close> or \<open>Raise e w\<close>, with the world as it was when the exception was
  raised. \<^verbatim>\<open>sys.exit(0)\<close> raises \<^verbatim>\<open>SystemExit(0)\<close>, as in Python, so a run that succeeds
  ends in \<open>Raise (SystemExit 0) w\<close>.
\<close>

subsection \<open>Data\<close>

type_synonym path = string

datatype py_exception =
    ValueError
  | IndexError
  | KeyError
  | AttributeError
  | RuntimeError
  | ModuleNotFoundError
  | SystemExit int

text \<open>
  A mesh data block; \<^verbatim>\<open>len(obj.data.polygons)\<close> is the face count. Python floats are
  idealised as reals.
\<close>

record mesh =
  vertices :: "(real \<times> real \<times> real) list"
  polygons :: "nat list list"

datatype modifier_type = DECIMATE | TRIANGULATE

record modifier =
  name :: string
  mod_type :: modifier_type
  decimate_type :: string
  angle_limit :: real

type_synonym euler = "real \<times> real \<times> real"

record object =
  data :: mesh
  rotation_euler :: euler
  modifiers :: "modifier list"
  select :: bool

text \<open>
  Every effect a script has on its surroundings is also appended to \<open>calls\<close>, in program
  order: the operators it invokes, the attributes it assigns, what it writes to the
  streams, and each evaluation of \<^verbatim>\<open>obj.modifiers[i]\<close> together with the modifier stack that
  the evaluation saw. A call is recorded when it is made, whether or not it then fails.
\<close>

datatype call =
    Sys_path_append string
  | Stdout_write string
  | Stderr_write string
  | Object_select_all string
  | Object_delete bool
  | Import_scene_obj path
  | Import_mesh_ply path
  | Export_scene_obj path
  | Set_rotation_euler nat nat real
  | Set_active nat
  | Modifier_add modifier_type
  | Read_modifiers nat nat "modifier list"
  | Set_decimate_type nat string string
  | Set_angle_limit nat string real
  | Modifier_apply string string
  | Mode_set string
  | Mesh_select_all string
  | Uv_smart_project
  | Sys_exit int

record world =
  sys_argv :: "string list"
  sys_path :: "string list"
  stdout :: string
  stderr :: string
  files :: "path \<rightharpoonup> string"
  objects :: "object list"
  active :: "nat option"
  mode :: string
  calls :: "call list"

datatype 'a outcome = Return 'a world | Raise py_exception world

fun world_of :: "'a outcome \<Rightarrow> world" where
  "world_of (Return x w) = w"
| "world_of (Raise e w) = w"

fun raised :: "'a outcome \<Rightarrow> py_exception option" where
  "raised (Return x w) = None"
| "raised (Raise e w) = Some e"

text \<open>Sequencing: the second statement runs only if the first one returned.\<close>

definition bind :: "(world \<Rightarrow> 'a outcome) \<Rightarrow> ('a \<Rightarrow> world \<Rightarrow> 'b outcome) \<Rightarrow> world \<Rightarrow> 'b outcome" where
  "bind m f w = (case m w of Return x w' \<Rightarrow> f x w' | Raise e w' \<Rightarrow> Raise e w')"

definition log :: "call \<Rightarrow> world \<Rightarrow> world" where
  "log c w = w\<lparr>calls := calls w @ [c]\<rparr>"

subsection \<open>Python built-ins\<close>

definition newline :: char where
  "newline = CHR 0x0A"

text \<open>\<^verbatim>\<open>str(n)\<close> of a non-negative integer: its decimal digits.\<close>

fun str :: "nat \<Rightarrow> string" where
  "str n = (if n < 10 then [''0123456789'' ! n]
            else str (n div 10) @ [''0123456789'' ! (n mod 10)])"

declare str.simps [simp del]

text \<open>\<^verbatim>\<open>xs.index(x)\<close>: the position of the first occurrence, \<^verbatim>\<open>ValueError\<close> if there is none.\<close>

fun index_of :: "'a \<Rightarrow> 'a list \<Rightarrow> nat option" where
  "index_of x [] = None"
| "index_of x (y # ys) = (if y = x then Some 0 else map_option Suc (index_of x ys))"

text \<open>\<^verbatim>\<open>xs[i]\<close> for a literal index \<open>i \<ge> 0\<close>: \<^verbatim>\<open>IndexError\<close> out of range.\<close>

definition py_index :: "'a list \<Rightarrow> nat \<Rightarrow> world \<Rightarrow> 'a outcome" where
  "py_index xs i w = (if i < length xs then Return (xs ! i) w else Raise IndexError w)"

text \<open>\<^verbatim>\<open>sys.argv[sys.argv.index("--") + 1:]\<close>\<close>

definition argv_after_separator :: "world \<Rightarrow> string list outcome" where
  "argv_after_separator w =
     (case index_of ''--'' (sys_argv w) of
        None \<Rightarrow> Raise ValueError w
      | Some i \<Rightarrow> Return (drop (i + 1) (sys_argv w)) w)"

definition sys_path_append :: "string \<Rightarrow> world \<Rightarrow> unit outcome" where
  "sys_path_append p w = Return () (log (Sys_path_append p) (w\<lparr>sys_path := sys_path w @ [p]\<rparr>))"

definition sys_stdout_write :: "string \<Rightarrow> world \<Rightarrow> unit outcome" where
  "sys_stdout_write s w = Return () (log (Stdout_write s) (w\<lparr>stdout := stdout w @ s\<rparr>))"

definition sys_stderr_write :: "string \<Rightarrow> world \<Rightarrow> unit outcome" where
  "sys_stderr_write s w = Return () (log (Stderr_write s) (w\<lparr>stderr := stderr w @ s\<rparr>))"

definition sys_exit :: "int \<Rightarrow> world \<Rightarrow> unit outcome" where
  "sys_exit n w = Raise (SystemExit n) (log (Sys_exit n) w)"

text \<open>\<^verbatim>\<open>math.radians\<close>, on reals.\<close>

definition radians :: "real \<Rightarrow> real" where
  "radians d = d * pi / 180"

subsection \<open>The host\<close>

text \<open>
  Blender is not part of the repository. Its geometry algorithms and file formats are
  parameters of the model, collected in the record \<open>host\<close>: the two parsers (\<open>None\<close> when
  the file cannot be read as that format; otherwise the mesh and orientation of each object
  the importer creates), the OBJ writer, which paths can be written, what applying a
  modifier does to a mesh, face selection, the smart UV projection, the angle limit a
  new Decimate modifier starts with, and the renaming of a modifier whose default name is
  taken. The last field belongs to the installation rather than to Blender: which
  directories hold a Python module of which name.
\<close>

record host =
  read_obj :: "string \<Rightarrow> (mesh \<times> euler) list option"
  read_ply :: "string \<Rightarrow> (mesh \<times> euler) list option"
  write_obj :: "object list \<Rightarrow> string"
  can_write :: "path \<Rightarrow> bool"
  run_modifier :: "modifier \<Rightarrow> mesh \<Rightarrow> mesh"
  select_faces :: "mesh \<Rightarrow> mesh"
  smart_project :: "mesh \<Rightarrow> mesh"
  default_angle_limit :: real
  unique_name :: "string \<Rightarrow> string list \<Rightarrow> string"
  has_module :: "path \<Rightarrow> string \<Rightarrow> bool"

definition update_object :: "nat \<Rightarrow> (object \<Rightarrow> object) \<Rightarrow> world \<Rightarrow> world" where
  "update_object r f w = w\<lparr>objects := (objects w)[r := f (objects w ! r)]\<rparr>"

text \<open>
  Modelled from the spec: \<^verbatim>\<open>bpy.ops.object.select_all(action='SELECT')\<close>, an operator of the
  host. Section 4.1 of the spec reads the two calls of the reset as "select all of them and
  delete them" and gives them no error conditions: the operator marks every object of the
  scene as selected.
\<close>

definition object_select_all :: "string \<Rightarrow> world \<Rightarrow> unit outcome" where
  "object_select_all action w =
     Return () (log (Object_select_all action)
       (w\<lparr>objects := map (\<lambda>obj. obj\<lparr>select := True\<rparr>) (objects w)\<rparr>))"

text \<open>
  Modelled from the spec: \<^verbatim>\<open>bpy.ops.object.delete(use_global=False)\<close>, an operator of the
  host (section 4.1, "delete them"): the selected objects leave the scene, the others stay
  in their order, and the active object is cleared if it was deleted.
\<close>

definition object_delete :: "bool \<Rightarrow> world \<Rightarrow> unit outcome" where
  "object_delete use_global w =
     Return () (log (Object_delete use_global)
       (w\<lparr>objects := filter (\<lambda>obj. \<not> select obj) (objects w),
          active := (case active w of
                       None \<Rightarrow> None
                     | Some r \<Rightarrow>
                         if r < length (objects w) \<and> \<not> select (objects w ! r)
                         then Some (length (filter (\<lambda>obj. \<not> select obj) (take r (objects w))))
                         else None)\<rparr>))"

text \<open>
  Modelled from the spec: the importers \<^verbatim>\<open>bpy.ops.import_scene.obj\<close> and
  \<^verbatim>\<open>bpy.ops.import_mesh.ply\<close> of the host. Section 7 of the spec: import calls "fail when
  input files are missing, corrupt"; otherwise the objects of the file join the scene. An
  imported object is selected and carries no modifier (neither format stores modifiers).
\<close>

definition imported :: "mesh \<times> euler \<Rightarrow> object" where
  "imported me = \<lparr>data = fst me, rotation_euler = snd me, modifiers = [], select = True\<rparr>"

definition import_file :: "(string \<Rightarrow> (mesh \<times> euler) list option) \<Rightarrow> path \<Rightarrow> world \<Rightarrow> unit outcome" where
  "import_file reader filepath w =
     (case files w filepath of
        None \<Rightarrow> Raise RuntimeError w
      | Some content \<Rightarrow>
          (case reader content of
             None \<Rightarrow> Raise RuntimeError w
           | Some found \<Rightarrow> Return () (w\<lparr>objects := objects w @ map imported found\<rparr>)))"

definition import_scene_obj :: "host \<Rightarrow> path \<Rightarrow> world \<Rightarrow> unit outcome" where
  "import_scene_obj h filepath w = import_file (read_obj h) filepath (log (Import_scene_obj filepath) w)"

definition import_mesh_ply :: "host \<Rightarrow> path \<Rightarrow> world \<Rightarrow> unit outcome" where
  "import_mesh_ply h filepath w = import_file (read_ply h) filepath (log (Import_mesh_ply filepath) w)"

text \<open>
  Modelled from the spec: the exporter \<^verbatim>\<open>bpy.ops.export_scene.obj\<close> of the host. It writes
  the scene to the path, or fails when the path cannot be written.
\<close>

definition export_scene_obj :: "host \<Rightarrow> path \<Rightarrow> world \<Rightarrow> unit outcome" where
  "export_scene_obj h filepath w =
     (let w1 = log (Export_scene_obj filepath) w in
      if can_write h filepath
      then Return () (w1\<lparr>files := (files w1)(filepath \<mapsto> write_obj h (objects w1))\<rparr>)
      else Raise RuntimeError w1)"

text \<open>
  \<^verbatim>\<open>bpy.data.objects[i]\<close>: a reference to the object, here its position in the scene (no
  script adds or removes an object while it holds a reference).
\<close>

definition data_objects :: "nat \<Rightarrow> world \<Rightarrow> nat outcome" where
  "data_objects i w = (if i < length (objects w) then Return i w else Raise IndexError w)"

text \<open>\<^verbatim>\<open>len(obj.data.polygons)\<close>\<close>

definition len_polygons :: "nat \<Rightarrow> world \<Rightarrow> nat outcome" where
  "len_polygons r w = Return (length (polygons (data (objects w ! r)))) w"

text \<open>\<^verbatim>\<open>obj.rotation_euler[k] = v\<close>: the vector has three components.\<close>

definition set_component :: "nat \<Rightarrow> real \<Rightarrow> euler \<Rightarrow> euler" where
  "set_component k v e =
     (case e of (x, y, z) \<Rightarrow> if k = 0 then (v, y, z) else if k = 1 then (x, v, z) else (x, y, v))"

definition set_rotation_euler :: "nat \<Rightarrow> nat \<Rightarrow> real \<Rightarrow> world \<Rightarrow> unit outcome" where
  "set_rotation_euler r k v w =
     (let w1 = log (Set_rotation_euler r k v) w in
      if k < 3
      then Return () (update_object r (\<lambda>obj. obj\<lparr>rotation_euler := set_component k v (rotation_euler obj)\<rparr>) w1)
      else Raise IndexError w1)"

text \<open>\<^verbatim>\<open>bpy.context.view_layer.objects.active = obj\<close>\<close>

definition set_active :: "nat \<Rightarrow> world \<Rightarrow> unit outcome" where
  "set_active r w = Return () (log (Set_active r) (w\<lparr>active := Some r\<rparr>))"

text \<open>
  Modelled from the spec: \<^verbatim>\<open>bpy.ops.object.modifier_add(type=...)\<close>, an operator of the host
  (section 4.3, "apply a decimation transform", "apply a triangulation transform"). It needs
  an active object and puts a new modifier of the given type, with the host's default
  settings, at the end of that object's modifier stack.
\<close>

definition default_name :: "modifier_type \<Rightarrow> string" where
  "default_name t = (case t of DECIMATE \<Rightarrow> ''Decimate'' | TRIANGULATE \<Rightarrow> ''Triangulate'')"

definition new_modifier :: "host \<Rightarrow> modifier_type \<Rightarrow> string list \<Rightarrow> modifier" where
  "new_modifier h t taken =
     \<lparr>name = (if default_name t \<in> set taken then unique_name h (default_name t) taken
               else default_name t),
      mod_type = t,
      decimate_type = ''COLLAPSE'',
      angle_limit = default_angle_limit h\<rparr>"

definition modifier_add :: "host \<Rightarrow> modifier_type \<Rightarrow> world \<Rightarrow> unit outcome" where
  "modifier_add h t w =
     (let w1 = log (Modifier_add t) w in
      case active w1 of
        None \<Rightarrow> Raise RuntimeError w1
      | Some r \<Rightarrow>
          if r < length (objects w1)
          then Return () (update_object r
                 (\<lambda>obj. obj\<lparr>modifiers := modifiers obj @ [new_modifier h t (map name (modifiers obj))]\<rparr>) w1)
          else Raise RuntimeError w1)"

text \<open>\<^verbatim>\<open>obj.modifiers[i]\<close>: the modifier at position \<open>i\<close> of the stack.\<close>

definition modifiers_index :: "nat \<Rightarrow> nat \<Rightarrow> world \<Rightarrow> modifier outcome" where
  "modifiers_index r i w =
     (let stack = modifiers (objects w ! r); w1 = log (Read_modifiers r i stack) w in
      if i < length stack then Return (stack ! i) w1 else Raise IndexError w1)"

text \<open>
  \<^verbatim>\<open>obj.modifiers[key].decimate_type = v\<close> and \<^verbatim>\<open>obj.modifiers[key].angle_limit = v\<close>: the
  first modifier of that name (\<^verbatim>\<open>KeyError\<close> if there is none); only a Decimate modifier
  has the two attributes.
\<close>

fun update_named :: "string \<Rightarrow> (modifier \<Rightarrow> modifier) \<Rightarrow> modifier list \<Rightarrow> modifier list" where
  "update_named key f [] = []"
| "update_named key f (m # ms) = (if name m = key then f m # ms else m # update_named key f ms)"

definition set_modifier_attribute ::
  "call \<Rightarrow> nat \<Rightarrow> string \<Rightarrow> (modifier \<Rightarrow> modifier) \<Rightarrow> world \<Rightarrow> unit outcome" where
  "set_modifier_attribute c r key f w =
     (let w1 = log c w in
      case find (\<lambda>m. name m = key) (modifiers (objects w1 ! r)) of
        None \<Rightarrow> Raise KeyError w1
      | Some m \<Rightarrow>
          if mod_type m = DECIMATE
          then Return () (update_object r (\<lambda>obj. obj\<lparr>modifiers := update_named key f (modifiers obj)\<rparr>) w1)
          else Raise AttributeError w1)"

definition set_decimate_type :: "nat \<Rightarrow> string \<Rightarrow> string \<Rightarrow> world \<Rightarrow> unit outcome" where
  "set_decimate_type r key v =
     set_modifier_attribute (Set_decimate_type r key v) r key (\<lambda>m. m\<lparr>decimate_type := v\<rparr>)"

definition set_angle_limit :: "nat \<Rightarrow> string \<Rightarrow> real \<Rightarrow> world \<Rightarrow> unit outcome" where
  "set_angle_limit r key v =
     set_modifier_attribute (Set_angle_limit r key v) r key (\<lambda>m. m\<lparr>angle_limit := v\<rparr>)"

text \<open>
  Modelled from the spec: \<^verbatim>\<open>bpy.ops.object.modifier_apply(apply_as='DATA', modifier=key)\<close>,
  an operator of the host (section 4.3, "apply that transform permanently to the mesh
  data"). The named modifier of the active object is evaluated on the object's mesh, the
  result replaces the mesh, and the modifier leaves the stack.
\<close>

fun remove_named :: "string \<Rightarrow> modifier list \<Rightarrow> modifier list" where
  "remove_named key [] = []"
| "remove_named key (m # ms) = (if name m = key then ms else m # remove_named key ms)"

definition modifier_apply :: "host \<Rightarrow> string \<Rightarrow> string \<Rightarrow> world \<Rightarrow> unit outcome" where
  "modifier_apply h apply_as key w =
     (let w1 = log (Modifier_apply apply_as key) w in
      case active w1 of
        None \<Rightarrow> Raise RuntimeError w1
      | Some r \<Rightarrow>
          if r < length (objects w1)
          then (case find (\<lambda>m. name m = key) (modifiers (objects w1 ! r)) of
                  None \<Rightarrow> Raise RuntimeError w1
                | Some m \<Rightarrow>
                    Return () (update_object r
                      (\<lambda>obj. obj\<lparr>data := run_modifier h m (data obj),
                                 modifiers := remove_named key (modifiers obj)\<rparr>) w1))
          else Raise RuntimeError w1)"

text \<open>
  Modelled from the spec: \<^verbatim>\<open>bpy.ops.object.mode_set\<close>, \<^verbatim>\<open>bpy.ops.mesh.select_all\<close> and
  \<^verbatim>\<open>bpy.ops.uv.smart_project\<close>, operators of the host (section 4.3, "enter per-face edit
  mode", "select all faces", "run the host's automatic unwrap algorithm", "leave edit
  mode"). Each needs an active object; the last two act on its mesh.
\<close>

definition on_active_mesh :: "call \<Rightarrow> (mesh \<Rightarrow> mesh) \<Rightarrow> world \<Rightarrow> unit outcome" where
  "on_active_mesh c f w =
     (let w1 = log c w in
      case active w1 of
        None \<Rightarrow> Raise RuntimeError w1
      | Some r \<Rightarrow>
          if r < length (objects w1)
          then Return () (update_object r (\<lambda>obj. obj\<lparr>data := f (data obj)\<rparr>) w1)
          else Raise RuntimeError w1)"

definition mode_set :: "string \<Rightarrow> world \<Rightarrow> unit outcome" where
  "mode_set m w =
     (let w1 = log (Mode_set m) w in
      case active w1 of
        None \<Rightarrow> Raise RuntimeError w1
      | Some r \<Rightarrow> if r < length (objects w1) then Return () (w1\<lparr>mode := m\<rparr>) else Raise RuntimeError w1)"

definition mesh_select_all :: "host \<Rightarrow> string \<Rightarrow> world \<Rightarrow> unit outcome" where
  "mesh_select_all h action = on_active_mesh (Mesh_select_all action) (select_faces h)"

definition uv_smart_project :: "host \<Rightarrow> world \<Rightarrow> unit outcome" where
  "uv_smart_project h = on_active_mesh Uv_smart_project (smart_project h)"

subsection \<open>\<^verbatim>\<open>Blender_Core.py\<close>\<close>

text \<open>
  \<^verbatim>\<open>
  def print_out(lineToWrite) :
      sys.stdout.write(lineToWrite + "\n")
      sys.stdout.flush()
  def print_err(errorLine) :
      sys.stderr.write(errorLine + "\n")
      sys.stderr.flush()
  def delete_all_on_start() :
      if (len(bpy.data.objects) > 0) :
          bpy.ops.object.select_all(action='SELECT')
          bpy.ops.object.delete(use_global=False)
  def print_face_count(face_count) :
      print_out("FACE_COUNT_OUTPUT:" + str(face_count))
  \<close>
  The streams of the model are unbuffered, so \<^verbatim>\<open>flush\<close> has nothing to do.
\<close>

definition print_out :: "string \<Rightarrow> world \<Rightarrow> unit outcome" where
  "print_out lineToWrite = sys_stdout_write (lineToWrite @ [newline])"

definition print_err :: "string \<Rightarrow> world \<Rightarrow> unit outcome" where
  "print_err errorLine = sys_stderr_write (errorLine @ [newline])"

definition delete_all_on_start :: "world \<Rightarrow> unit outcome" where
  "delete_all_on_start w =
     (if length (objects w) > 0
      then bind (object_select_all ''SELECT'') (\<lambda>_. object_delete False) w
      else Return () w)"

definition print_face_count :: "nat \<Rightarrow> world \<Rightarrow> unit outcome" where
  "print_face_count face_count = print_out (''FACE_COUNT_OUTPUT:'' @ str face_count)"

subsection \<open>The four scripts\<close>

text \<open>
  Every script starts with
  \<^verbatim>\<open>
  import sys, os
  sys.path.append(sys.argv[sys.argv.index("--") + 1:][0])
  import bpy
  from Blender_Core import print_out, print_err, delete_all_on_start, print_face_count
  \<close>
  (Convert also has \<^verbatim>\<open>from math import radians\<close>, and UV-Unwrap does not import
  \<^verbatim>\<open>print_face_count\<close>). The modules \<^verbatim>\<open>sys\<close>, \<^verbatim>\<open>os\<close> and \<^verbatim>\<open>math\<close> belong to the interpreter and
  \<^verbatim>\<open>bpy\<close> is built into the host that runs the script, so these imports find their module.
  \<^verbatim>\<open>Blender_Core\<close> is a file of the repository: the interpreter looks for it in the directories
  of \<^verbatim>\<open>sys.path\<close>, which is why the script appends its first argument there, and raises
  \<^verbatim>\<open>ModuleNotFoundError\<close> when none of them holds it. Importing a module that is found binds
  names and changes nothing of the world. A script is this preamble followed by its
  \<^verbatim>\<open>main()\<close>.
\<close>

definition import_from_path :: "host \<Rightarrow> string \<Rightarrow> world \<Rightarrow> unit outcome" where
  "import_from_path h modname w =
     (if list_ex (\<lambda>dir. has_module h dir modname) (sys_path w) then Return () w
      else Raise ModuleNotFoundError w)"

definition preamble :: "host \<Rightarrow> world \<Rightarrow> unit outcome" where
  "preamble h =
     bind argv_after_separator (\<lambda>argv.
     bind (py_index argv 0) (\<lambda>module_path.
     bind (sys_path_append module_path) (\<lambda>_.
     import_from_path h ''Blender_Core'')))"

text \<open>\<^verbatim>\<open>Blender_CheckOBJMeshInfo.py\<close>\<close>

definition main_CheckOBJMeshInfo :: "host \<Rightarrow> world \<Rightarrow> unit outcome" where
  "main_CheckOBJMeshInfo h =
     bind argv_after_separator (\<lambda>argv.
     bind (py_index argv 1) (\<lambda>input_file_path.
     bind delete_all_on_start (\<lambda>_.
     bind (import_scene_obj h input_file_path) (\<lambda>_.
     bind (data_objects 0) (\<lambda>obj0.
     bind (len_polygons obj0) (\<lambda>face_count.
     bind (print_face_count face_count) (\<lambda>_.
     bind (print_out (''Mesh currently has '' @ str face_count @ '' faces.'')) (\<lambda>_.
     sys_exit 0))))))))"

text \<open>\<^verbatim>\<open>Blender_ConvertPLYtoOBJ.py\<close>\<close>

definition main_ConvertPLYtoOBJ :: "host \<Rightarrow> world \<Rightarrow> unit outcome" where
  "main_ConvertPLYtoOBJ h =
     bind argv_after_separator (\<lambda>argv.
     bind (py_index argv 1) (\<lambda>input_file_path.
     bind (py_index argv 2) (\<lambda>output_file_path.
     bind delete_all_on_start (\<lambda>_.
     bind (print_out (''Importing mesh from '' @ input_file_path @ ''.'')) (\<lambda>_.
     bind (import_mesh_ply h input_file_path) (\<lambda>_.
     bind (data_objects 0) (\<lambda>global_obj.
     bind (len_polygons global_obj) (\<lambda>face_count.
     bind (print_face_count face_count) (\<lambda>_.
     bind (print_out ''Rotating mesh.'') (\<lambda>_.
     bind (set_rotation_euler global_obj 0 (radians (- 90))) (\<lambda>_.
     bind (set_rotation_euler global_obj 2 (radians 180)) (\<lambda>_.
     bind (print_out (''Exporting mesh to '' @ output_file_path @ ''.'')) (\<lambda>_.
     bind (export_scene_obj h output_file_path) (\<lambda>_.
     bind (print_out (''Finished operation. Mesh can be found at '' @ output_file_path @ ''.'')) (\<lambda>_.
     sys_exit 0)))))))))))))))"

text \<open>\<^verbatim>\<open>Blender_SimplifyOBJ.py\<close>\<close>

definition main_SimplifyOBJ :: "host \<Rightarrow> world \<Rightarrow> unit outcome" where
  "main_SimplifyOBJ h =
     bind argv_after_separator (\<lambda>argv.
     bind (py_index argv 1) (\<lambda>input_file_path.
     bind (py_index argv 2) (\<lambda>output_file_path.
     bind delete_all_on_start (\<lambda>_.
     bind (import_scene_obj h input_file_path) (\<lambda>_.
     bind (data_objects 0) (\<lambda>global_obj.
     bind (set_active global_obj) (\<lambda>_.
     bind (len_polygons global_obj) (\<lambda>original_face_count.
     bind (modifier_add h DECIMATE) (\<lambda>_.
     bind (modifiers_index global_obj 0) (\<lambda>decimate_modifier.
     bind (set_decimate_type global_obj (name decimate_modifier) ''DISSOLVE'') (\<lambda>_.
     bind (set_angle_limit global_obj (name decimate_modifier) 0.0872665) (\<lambda>_.
     bind (modifier_apply h ''DATA'' (name decimate_modifier)) (\<lambda>_.
     bind (modifier_add h TRIANGULATE) (\<lambda>_.
     bind (modifiers_index global_obj 0) (\<lambda>triangulate_modifier.
     bind (modifier_apply h ''DATA'' (name triangulate_modifier)) (\<lambda>_.
     bind (len_polygons global_obj) (\<lambda>new_face_count.
     bind (print_out (''Decimated mesh from '' @ str original_face_count @ '' to ''
                        @ str new_face_count @ '' faces.'')) (\<lambda>_.
     bind (print_face_count new_face_count) (\<lambda>_.
     bind (export_scene_obj h output_file_path) (\<lambda>_.
     bind (print_out (''Finished operation. Mesh can be found at '' @ output_file_path @ ''.'')) (\<lambda>_.
     sys_exit 0)))))))))))))))))))))"

text \<open>\<^verbatim>\<open>Blender_SmartUVProjectOBJ.py\<close>\<close>

definition main_SmartUVProjectOBJ :: "host \<Rightarrow> world \<Rightarrow> unit outcome" where
  "main_SmartUVProjectOBJ h =
     bind argv_after_separator (\<lambda>argv.
     bind (py_index argv 1) (\<lambda>input_file_path.
     bind (py_index argv 2) (\<lambda>output_file_path.
     bind delete_all_on_start (\<lambda>_.
     bind (print_out (''Importing mesh from '' @ input_file_path @ ''.'')) (\<lambda>_.
     bind (import_scene_obj h input_file_path) (\<lambda>_.
     bind (data_objects 0) (\<lambda>obj.
     bind (set_active obj) (\<lambda>_.
     bind (mode_set ''EDIT'') (\<lambda>_.
     bind (mesh_select_all h ''SELECT'') (\<lambda>_.
     bind (print_out ''Applying the Smart UV Project algorithm.'') (\<lambda>_.
     bind (uv_smart_project h) (\<lambda>_.
     bind (mode_set ''OBJECT'') (\<lambda>_.
     bind (print_out (''Exporting mesh to '' @ output_file_path @ ''.'')) (\<lambda>_.
     bind (export_scene_obj h output_file_path) (\<lambda>_.
     sys_exit 0)))))))))))))))"

datatype connector = Inspect | Convert | Simplify | UV_Unwrap

fun main :: "connector \<Rightarrow> host \<Rightarrow> world \<Rightarrow> unit outcome" where
  "main Inspect = main_CheckOBJMeshInfo"
| "main Convert = main_ConvertPLYtoOBJ"
| "main Simplify = main_SimplifyOBJ"
| "main UV_Unwrap = main_SmartUVProjectOBJ"

definition script :: "connector \<Rightarrow> host \<Rightarrow> world \<Rightarrow> unit outcome" where
  "script c h = bind (preamble h) (\<lambda>_. main c h)"

subsection \<open>Reading a run\<close>

text \<open>
  The caller reads standard output line by line: \<open>splitlines\<close> cuts a character sequence
  at each newline, \<open>emitted\<close> and \<open>new_calls\<close> are what a run added to standard output and
  to the record of calls.
\<close>

fun splitlines :: "string \<Rightarrow> string list" where
  "splitlines [] = []"
| "splitlines (c # cs) =
     (if c = newline then [] # splitlines cs
      else (case splitlines cs of [] \<Rightarrow> [[c]] | l # ls \<Rightarrow> (c # l) # ls))"

definition unlines :: "string list \<Rightarrow> string" where
  "unlines ls = concat (map (\<lambda>l. l @ [newline]) ls)"

definition emitted :: "world \<Rightarrow> world \<Rightarrow> string" where
  "emitted w w' = drop (length (stdout w)) (stdout w')"

definition new_calls :: "world \<Rightarrow> world \<Rightarrow> call list" where
  "new_calls w w' = drop (length (calls w)) (calls w')"

definition marker_lines :: "string \<Rightarrow> string list" where
  "marker_lines out = filter (prefix ''FACE_COUNT_OUTPUT:'') (splitlines out)"

text \<open>An outcome with \<^verbatim>\<open>sys.argv\<close> of its world replaced, to compare runs on different argument vectors.\<close>

fun with_argv :: "string list \<Rightarrow> 'a outcome \<Rightarrow> 'a outcome" where
  "with_argv a (Return x w) = Return x (w\<lparr>sys_argv := a\<rparr>)"
| "with_argv a (Raise e w) = Raise e (w\<lparr>sys_argv := a\<rparr>)"

text \<open>The face count of the object that \<^verbatim>\<open>bpy.data.objects[0]\<close> denotes.\<close>

definition face_count :: "world \<Rightarrow> nat" where
  "face_count w = length (polygons (data (objects w ! 0)))"

text \<open>The calls of the reset, as a function of the scene it starts from.\<close>

definition reset_calls :: "world \<Rightarrow> call list" where
  "reset_calls w =
     (if objects w = [] then [] else [Object_select_all ''SELECT'', Object_delete False])"

fun is_import :: "call \<Rightarrow> bool" where
  "is_import (Import_scene_obj p) = True"
| "is_import (Import_mesh_ply p) = True"
| "is_import c = False"

fun is_export :: "call \<Rightarrow> bool" where
  "is_export (Export_scene_obj p) = True"
| "is_export c = False"

fun is_stdout :: "call \<Rightarrow> bool" where
  "is_stdout (Stdout_write s) = True"
| "is_stdout c = False"

text \<open>The calls that can change a mesh or an object's placement.\<close>

fun is_transform :: "call \<Rightarrow> bool" where
  "is_transform (Set_rotation_euler r k v) = True"
| "is_transform (Modifier_add t) = True"
| "is_transform (Set_decimate_type r key v) = True"
| "is_transform (Set_angle_limit r key v) = True"
| "is_transform (Modifier_apply a key) = True"
| "is_transform (Mesh_select_all a) = True"
| "is_transform Uv_smart_project = True"
| "is_transform c = False"

fun is_stack_read :: "call \<Rightarrow> bool" where
  "is_stack_read (Read_modifiers r i stack) = True"
| "is_stack_read c = False"

text \<open>
  The path arguments a script copies to standard output: Convert and UV-Unwrap print the
  input path (\<^verbatim>\<open>"Importing mesh from ..."\<close>) and the output path (\<^verbatim>\<open>"Exporting mesh to ..."\<close>),
  Simplify prints only the output path (\<^verbatim>\<open>"Finished operation. ..."\<close>), Inspect prints none.
\<close>

fun echoed :: "connector \<Rightarrow> string list \<Rightarrow> string list" where
  "echoed Inspect args = []"
| "echoed Convert args = [args ! 1, args ! 2]"
| "echoed Simplify args = [args ! 2]"
| "echoed UV_Unwrap args = [args ! 1, args ! 2]"

text \<open>
  The importer each script calls, and the number of positional arguments it indexes
  (\<^verbatim>\<open>argv[0]\<close>, \<^verbatim>\<open>argv[1]\<close> and, except for Inspect, \<^verbatim>\<open>argv[2]\<close>).
\<close>

fun import_call :: "connector \<Rightarrow> path \<Rightarrow> call" where
  "import_call Convert p = Import_mesh_ply p"
| "import_call c p = Import_scene_obj p"

fun required :: "connector \<Rightarrow> nat" where
  "required Inspect = 2"
| "required c = 3"

text \<open>
  A read of \<^verbatim>\<open>modifiers[0]\<close> is fresh when the call just before it added a modifier and the
  stack it sees holds that one modifier, as the host created it, and nothing else. A
  sequence of calls has fresh reads when every read in it is fresh; the first call has
  no call before it, so it must not be a read.
\<close>

definition fresh_read :: "host \<Rightarrow> call \<Rightarrow> call \<Rightarrow> bool" where
  "fresh_read h c c' =
     (case c' of
        Read_modifiers r i stack \<Rightarrow>
          (case c of
             Modifier_add t \<Rightarrow> r = 0 \<and> i = 0 \<and> stack = [new_modifier h t []]
           | _ \<Rightarrow> False)
      | _ \<Rightarrow> True)"

fun fresh_pairs :: "host \<Rightarrow> call list \<Rightarrow> bool" where
  "fresh_pairs h (c # c' # cs) = (fresh_read h c c' \<and> fresh_pairs h (c' # cs))"
| "fresh_pairs h cs = True"

definition fresh_reads :: "host \<Rightarrow> call list \<Rightarrow> bool" where
  "fresh_reads h cs = ((case cs of [] \<Rightarrow> True | c # rest \<Rightarrow> \<not> is_stack_read c) \<and> fresh_pairs h cs)"

text \<open>The Decimate modifier as Simplify has set it up when it applies it.\<close>

definition dissolve :: "host \<Rightarrow> modifier" where
  "dissolve h = (new_modifier h DECIMATE [])\<lparr>decimate_type := ''DISSOLVE'', angle_limit := 0.0872665\<rparr>"

text \<open>The mesh Simplify ends with, as a function of the mesh it imported.\<close>

definition simplified :: "host \<Rightarrow> mesh \<Rightarrow> mesh" where
  "simplified h m = run_modifier h (new_modifier h TRIANGULATE []) (run_modifier h (dissolve h) m)"

subsection \<open>A small host to run the scripts on\<close>

text \<open>
  A host that knows one file content, a single quadrilateral, and whose Triangulate
  modifier cuts each polygon into a fan of triangles; an installation where
  \<^verbatim>\<open>Blender_Core.py\<close> lies in \<^verbatim>\<open>/repo\<close>; and a session that starts, as Blender does, with one
  object already in the scene.
\<close>

definition quad :: mesh where
  "quad = \<lparr>vertices = [(0, 0, 0), (1, 0, 0), (1, 1, 0), (0, 1, 0)], polygons = [[0, 1, 2, 3]]\<rparr>"

fun fan :: "nat list \<Rightarrow> nat list list" where
  "fan (a # b # c # rest) = [a, b, c] # fan (a # c # rest)"
| "fan rest = []"

definition demo_host :: host where
  "demo_host =
     \<lparr>read_obj = (\<lambda>content. if content = ''quad'' then Some [(quad, (0, 0, 0))] else None),
      read_ply = (\<lambda>content. if content = ''quad'' then Some [(quad, (0, 0, 0))] else None),
      write_obj = (\<lambda>objs. concat (map (\<lambda>obj. ''o '' @ str (length (polygons (data obj))) @ '';'') objs)),
      can_write = (\<lambda>p. True),
      run_modifier = (\<lambda>m me. if mod_type m = TRIANGULATE
                              then me\<lparr>polygons := concat (map fan (polygons me))\<rparr> else me),
      select_faces = (\<lambda>me. me),
      smart_project = (\<lambda>me. me),
      default_angle_limit = 0.0872665,
      unique_name = (\<lambda>base taken. base @ ''.001''),
      has_module = (\<lambda>dir modname. dir = ''/repo'' \<and> modname = ''Blender_Core'')\<rparr>"

definition demo_world :: "string list \<Rightarrow> world" where
  "demo_world args =
     \<lparr>sys_argv = [''blender'', ''--background'', ''--python'', ''script.py'', ''--''] @ args,
      sys_path = [],
      stdout = [],
      stderr = [],
      files = [''in.mesh'' \<mapsto> ''quad''],
      objects = [\<lparr>data = quad, rotation_euler = (0, 0, 0), modifiers = [], select = False\<rparr>],
      active = Some 0,
      mode = ''OBJECT'',
      calls = []\<rparr>"

definition empty_world :: world where
  "empty_world =
     \<lparr>sys_argv = [], sys_path = [], stdout = [], stderr = [], files = Map.empty,
      objects = [], active = None, mode = ''OBJECT'', calls = []\<rparr>"

text \<open>An output path with a line break in it.\<close>

definition broken_path :: path where
  "broken_path = ''out'' @ [newline] @ ''FACE_COUNT_OUTPUT:7'' @ [newline] @ ''.obj''"

section \<open>Properties\<close>

subsection \<open>Auxiliary facts\<close>

lemma index_of_append: "x \<notin> set pre \<Longrightarrow> index_of x (pre @ x # rest) = Some (length pre)"
  by (induction pre) auto

lemmas ops_defs = script_def preamble_def bind_def argv_after_separator_def py_index_def
  import_from_path_def sys_path_append_def sys_stdout_write_def sys_exit_def log_def
  delete_all_on_start_def object_select_all_def object_delete_def
  import_scene_obj_def import_mesh_ply_def import_file_def export_scene_obj_def
  data_objects_def len_polygons_def set_rotation_euler_def set_active_def
  modifier_add_def modifiers_index_def set_modifier_attribute_def set_decimate_type_def
  set_angle_limit_def modifier_apply_def on_active_mesh_def mode_set_def mesh_select_all_def
  uv_smart_project_def print_out_def print_face_count_def update_object_def

lemma raised_world_of: "raised r = Some e \<Longrightarrow> r = Raise e (world_of r)"
  by (cases r) auto

lemma splitlines_line:
  "newline \<notin> set l \<Longrightarrow> splitlines (l @ newline # rest) = l # splitlines rest"
  by (induction l) auto

lemma str_no_newline: "newline \<notin> set (str n)"
proof (induction n rule: str.induct)
  case (1 n)
  have d: "k < 10 \<Longrightarrow> ''0123456789'' ! k \<noteq> newline" for k :: nat
    by (simp add: newline_def nth_Cons' )
  show ?case
  proof (cases "n < 10")
    case True
    then show ?thesis using d [of n] by (simp add: str.simps [of n])
  next
    case False
    then show ?thesis using 1 d [of "n mod 10"] by (simp add: str.simps [of n])
  qed
qed

lemma splitlines_unlines:
  "\<forall>l \<in> set ls. newline \<notin> set l \<Longrightarrow> splitlines (unlines ls) = ls"
  by (induction ls) (simp_all add: unlines_def splitlines_line)

lemma demo_argv:
  "sys_argv (demo_world args) = [''blender'', ''--background'', ''--python'', ''script.py''] @ ''--'' # args"
  "''--'' \<notin> set [''blender'', ''--background'', ''--python'', ''script.py'']"
  by (simp_all add: demo_world_def)

lemmas demo_defs = demo_host_def demo_world_def quad_def new_modifier_def default_name_def
  imported_def set_component_def Let_def

lemma demo_Inspect_exit:
  "raised (script Inspect demo_host (demo_world [''/repo'', ''in.mesh''])) = Some (SystemExit 0)"
  by (simp add: ops_defs main_CheckOBJMeshInfo_def demo_defs)

lemma demo_Convert_exit:
  "raised (script Convert demo_host (demo_world [''/repo'', ''in.mesh'', ''out.obj''])) = Some (SystemExit 0)"
  by (simp add: ops_defs main_ConvertPLYtoOBJ_def demo_defs)

lemma demo_Simplify_exit:
  "raised (script Simplify demo_host (demo_world [''/repo'', ''in.mesh'', ''out.obj''])) = Some (SystemExit 0)"
  by (simp add: ops_defs main_SimplifyOBJ_def demo_defs)

lemma demo_UV_Unwrap_exit:
  "raised (script UV_Unwrap demo_host (demo_world [''/repo'', ''in.mesh'', ''out.obj''])) = Some (SystemExit 0)"
  by (simp add: ops_defs main_SmartUVProjectOBJ_def demo_defs)

lemma marker_lines_unlines:
  "\<forall>l \<in> set ls. newline \<notin> set l \<Longrightarrow>
   marker_lines (unlines ls) = filter (prefix ''FACE_COUNT_OUTPUT:'') ls"
  by (simp add: marker_lines_def splitlines_unlines)

lemma str_small: "str 1 = ''1''" "str 2 = ''2''"
  by (simp_all add: str.simps)

lemma demo_Convert_broken_exit:
  "raised (script Convert demo_host (demo_world [''/repo'', ''in.mesh'', broken_path])) = Some (SystemExit 0)"
  by (simp add: ops_defs main_ConvertPLYtoOBJ_def demo_defs)

lemma demo_UV_Unwrap_broken_exit:
  "raised (script UV_Unwrap demo_host (demo_world [''/repo'', ''in.mesh'', broken_path])) = Some (SystemExit 0)"
  by (simp add: ops_defs main_SmartUVProjectOBJ_def demo_defs)

lemma index_of_Some:
  "index_of x xs = Some i \<Longrightarrow> xs = take i xs @ x # drop (Suc i) xs \<and> x \<notin> set (take i xs)"
proof (induction xs arbitrary: i)
  case Nil
  then show ?case by simp
next
  case (Cons y ys)
  then show ?case by (cases "y = x") auto
qed

lemma delete_all_on_start_eq:
  "delete_all_on_start w =
     Return () (w\<lparr>objects := [],
                  active := (if objects w = [] then active w else None),
                  calls := calls w @ reset_calls w\<rparr>)"
  by (simp add: delete_all_on_start_def bind_def object_select_all_def object_delete_def
      log_def reset_calls_def filter_empty_conv split: option.splits)

lemmas step_defs = script_def preamble_def bind_def argv_after_separator_def py_index_def
  import_from_path_def sys_path_append_def sys_stdout_write_def sys_exit_def log_def
  delete_all_on_start_eq
  import_scene_obj_def import_mesh_ply_def import_file_def export_scene_obj_def
  data_objects_def len_polygons_def set_rotation_euler_def set_active_def
  modifier_add_def modifiers_index_def set_modifier_attribute_def set_decimate_type_def
  set_angle_limit_def modifier_apply_def on_active_mesh_def mode_set_def mesh_select_all_def
  uv_smart_project_def print_out_def print_face_count_def update_object_def Let_def

lemma success_argv:
  assumes "script c h w = Raise (SystemExit 0) w'"
  shows "\<exists>pre args. sys_argv w = pre @ ''--'' # args \<and> ''--'' \<notin> set pre"
proof (cases "index_of ''--'' (sys_argv w)")
  case None
  then show ?thesis using assms by (simp add: step_defs)
next
  case (Some i)
  from index_of_Some [OF Some] show ?thesis by blast
qed

lemma demo_Inspect_again:
  "raised (script Inspect demo_host
     (world_of (script Inspect demo_host (demo_world [''/repo'', ''in.mesh''])))) = Some (SystemExit 0)"
  "sys_argv (world_of (script Inspect demo_host (demo_world [''/repo'', ''in.mesh'']))) =
     [''blender'', ''--background'', ''--python'', ''script.py''] @ ''--'' # [''/repo'', ''in.mesh'']"
  "files (world_of (script Inspect demo_host (demo_world [''/repo'', ''in.mesh''])))
     = files (demo_world [''/repo'', ''in.mesh''])"
  by (simp_all add: ops_defs main_CheckOBJMeshInfo_def demo_defs)

lemma filter_reads: "filter is_stack_read (filter (\<lambda>c. is_stack_read c \<or> is_transform c) cs) = filter is_stack_read cs"
  by (induction cs) auto

lemma short_args_cases:
  "length args < 3 \<Longrightarrow> args \<noteq> [] \<Longrightarrow> (\<not> Suc 0 < length args) \<or> (Suc 0 < length args \<and> \<not> 2 < length args)"
  by auto

lemma splitlines_snoc_nonempty: "splitlines (s @ [newline]) \<noteq> []"
  by (induction s) (auto split: list.splits)

lemma splitlines_append:
  "splitlines (x @ newline # y) = splitlines (x @ [newline]) @ splitlines y"
proof (induction x)
  case Nil
  then show ?case by simp
next
  case (Cons c x)
  then show ?case
    using splitlines_snoc_nonempty [of x]
    by (cases "splitlines (x @ [newline])") auto
qed

lemma marker_lines_append:
  "marker_lines (x @ newline # y) = marker_lines (x @ [newline]) @ marker_lines y"
  unfolding marker_lines_def by (subst splitlines_append) simp

lemma marker_lines_unlines_chunks:
  "marker_lines (unlines ls) = concat (map (\<lambda>l. marker_lines (l @ [newline])) ls)"
proof (induction ls)
  case Nil
  then show ?case by (simp add: unlines_def marker_lines_def)
next
  case (Cons l ls)
  have "unlines (l # ls) = l @ newline # unlines ls"
    by (simp add: unlines_def)
  then show ?case
    using Cons marker_lines_append [of l "unlines ls"] by simp
qed

lemma hd_splitlines: "hd (splitlines (s @ [newline])) = takeWhile (\<lambda>c. c \<noteq> newline) s"
proof (induction s)
  case Nil
  then show ?case by simp
next
  case (Cons c s)
  then show ?case
    using splitlines_snoc_nonempty [of s]
    by (cases "splitlines (s @ [newline])") auto
qed

lemma prefix_takeWhile_line:
  "prefix m (takeWhile P s) \<Longrightarrow> prefix m s"
  by (metis prefix_order.order_trans takeWhile_is_prefix)

lemma later_lines_no_marker:
  assumes "\<not> sublist (newline # m) s"
  shows "filter (prefix m) (tl (splitlines (s @ [newline]))) = []"
  using assms
proof (induction s)
  case Nil
  then show ?case by simp
next
  case (Cons c s)
  have ns: "\<not> sublist (newline # m) s"
    using Cons.prems by (simp add: sublist_Cons_right)
  obtain l ls where ne: "splitlines (s @ [newline]) = l # ls"
    using splitlines_snoc_nonempty [of s] by (cases "splitlines (s @ [newline])") auto
  show ?case
  proof (cases "c = newline")
    case True
    have "\<not> prefix m s"
      using Cons.prems True by (simp add: sublist_Cons_right)
    then have "\<not> prefix m l"
      using hd_splitlines [of s] prefix_takeWhile_line [of m _ s] by (auto simp: ne)
    then show ?thesis
      using Cons.IH [OF ns] True by (simp add: ne)
  next
    case False
    then show ?thesis
      using Cons.IH [OF ns] by (simp add: ne)
  qed
qed

lemma chunk_no_marker:
  assumes "\<not> prefix ''FACE_COUNT_OUTPUT:'' s" and "\<not> sublist (newline # ''FACE_COUNT_OUTPUT:'') s"
  shows "marker_lines (s @ [newline]) = []"
proof -
  obtain l ls where ne: "splitlines (s @ [newline]) = l # ls"
    using splitlines_snoc_nonempty [of s] by (cases "splitlines (s @ [newline])") auto
  have "\<not> prefix ''FACE_COUNT_OUTPUT:'' l"
    using hd_splitlines [of s] prefix_takeWhile_line [of "''FACE_COUNT_OUTPUT:''" _ s] assms(1)
    by (auto simp: ne)
  then show ?thesis
    using later_lines_no_marker [OF assms(2)] by (simp add: marker_lines_def ne)
qed

lemma chunk_plain:
  "newline \<notin> set s \<Longrightarrow>
   marker_lines (s @ [newline]) = (if prefix ''FACE_COUNT_OUTPUT:'' s then [s] else [])"
  using splitlines_line [of s "[]"] by (simp add: marker_lines_def)

lemma sublist_after_plain:
  "newline \<notin> set a \<Longrightarrow> sublist (newline # m) (a @ b) \<longleftrightarrow> sublist (newline # m) b"
  by (induction a) (auto simp: sublist_Cons_right)

lemma sublist_before_dot:
  assumes "c \<notin> set xs" "xs \<noteq> []"
  shows "sublist xs (ys @ [c]) \<longleftrightarrow> sublist xs ys"
proof
  assume "sublist xs (ys @ [c])"
  then obtain ps ss where e: "ys @ [c] = ps @ xs @ ss"
    by (auto simp: sublist_def)
  show "sublist xs ys"
  proof (cases ss rule: rev_cases)
    case Nil
    then have "last (ys @ [c]) = last xs" using e assms(2) by simp
    then show ?thesis using assms by (metis last_in_set last_snoc)
  next
    case (snoc ss' d)
    then have "ys = ps @ xs @ ss'" using e by (metis append_assoc butlast_snoc)
    then show ?thesis by (auto simp: sublist_def)
  qed
next
  assume "sublist xs ys"
  then show "sublist xs (ys @ [c])"
    by (metis sublist_append sublist_order.order_refl append_Nil2 sublist_appendI sublist_order.dual_order.trans sublist_append_rightI)
qed

lemma chunk_path:
  assumes a: "newline \<notin> set a" "\<And>s. \<not> prefix ''FACE_COUNT_OUTPUT:'' (a @ s)"
    and p: "\<not> sublist (newline # ''FACE_COUNT_OUTPUT:'') p"
  shows "marker_lines ((a @ p @ ''.'') @ [newline]) = []"
proof (rule chunk_no_marker)
  show "\<not> prefix ''FACE_COUNT_OUTPUT:'' (a @ p @ ''.'')"
    by (rule a(2))
  have "\<not> sublist (newline # ''FACE_COUNT_OUTPUT:'') (p @ ''.'')"
    using p sublist_before_dot [of "CHR ''.''" "newline # ''FACE_COUNT_OUTPUT:''" p]
    by (simp add: newline_def)
  then show "\<not> sublist (newline # ''FACE_COUNT_OUTPUT:'') (a @ p @ ''.'')"
    using sublist_after_plain [OF a(1)] by simp
qed

lemma prefix_first_line:
  "newline \<notin> set m \<Longrightarrow> prefix m s \<Longrightarrow> prefix m (takeWhile (\<lambda>c. c \<noteq> newline) s)"
proof (induction m arbitrary: s)
  case Nil
  then show ?case by simp
next
  case (Cons x m)
  then show ?case by (cases s) auto
qed

lemma later_lines_marker:
  assumes "newline \<notin> set m" "sublist (newline # m) s"
  shows "filter (prefix m) (tl (splitlines (s @ [newline]))) \<noteq> []"
  using assms(2)
proof (induction s)
  case Nil
  then show ?case by simp
next
  case (Cons c s)
  obtain l ls where ne: "splitlines (s @ [newline]) = l # ls"
    using splitlines_snoc_nonempty [of s] by (cases "splitlines (s @ [newline])") auto
  have l: "l = takeWhile (\<lambda>c. c \<noteq> newline) s"
    using hd_splitlines [of s] by (simp add: ne)
  from Cons.prems consider (here) "c = newline" "prefix m s" | (later) "sublist (newline # m) s"
    by (auto simp: sublist_Cons_right)
  then show ?case
  proof cases
    case here
    then have "prefix m l"
      using prefix_first_line [OF assms(1)] l by simp
    then show ?thesis using here by (simp add: ne)
  next
    case later
    from Cons.IH [OF later] show ?thesis
      by (cases "c = newline") (auto simp: ne)
  qed
qed

lemma chunk_marker:
  assumes "sublist (newline # ''FACE_COUNT_OUTPUT:'') s"
  shows "marker_lines (s @ [newline]) \<noteq> []"
proof -
  obtain l ls where ne: "splitlines (s @ [newline]) = l # ls"
    using splitlines_snoc_nonempty [of s] by (cases "splitlines (s @ [newline])") auto
  have "newline \<notin> set ''FACE_COUNT_OUTPUT:''"
    by (simp add: newline_def)
  from later_lines_marker [OF this assms] show ?thesis
    by (auto simp: marker_lines_def ne)
qed

lemma chunk_path_iff:
  assumes a: "newline \<notin> set a" "\<And>s. \<not> prefix ''FACE_COUNT_OUTPUT:'' (a @ s)"
  shows "(marker_lines ((a @ p @ ''.'') @ [newline]) = []) \<longleftrightarrow>
         \<not> sublist (newline # ''FACE_COUNT_OUTPUT:'') p"
proof
  assume e: "marker_lines ((a @ p @ ''.'') @ [newline]) = []"
  show "\<not> sublist (newline # ''FACE_COUNT_OUTPUT:'') p"
  proof
    assume "sublist (newline # ''FACE_COUNT_OUTPUT:'') p"
    then have "sublist (newline # ''FACE_COUNT_OUTPUT:'') (a @ p @ ''.'')"
      by (auto simp: sublist_def) (metis append.assoc)
    from chunk_marker [OF this] e show False by simp
  qed
next
  assume "\<not> sublist (newline # ''FACE_COUNT_OUTPUT:'') p"
  from chunk_path [OF a this] show "marker_lines ((a @ p @ ''.'') @ [newline]) = []" .
qed

lemma single_between: "(xs @ y # zs = [y]) \<longleftrightarrow> xs = [] \<and> zs = []"
  by (cases xs) auto

lemma demo_Inspect_broken_exit:
  "raised (script Inspect demo_host
     ((demo_world [''/repo'', broken_path])\<lparr>files := [broken_path \<mapsto> ''quad'']\<rparr>)) = Some (SystemExit 0)"
  "sys_argv ((demo_world [''/repo'', broken_path])\<lparr>files := [broken_path \<mapsto> ''quad'']\<rparr>) =
     [''blender'', ''--background'', ''--python'', ''script.py''] @ ''--'' # [''/repo'', broken_path]"
  "face_count (world_of (script Inspect demo_host
     ((demo_world [''/repo'', broken_path])\<lparr>files := [broken_path \<mapsto> ''quad'']\<rparr>))) = 1"
  by (simp_all add: ops_defs main_CheckOBJMeshInfo_def demo_defs face_count_def)

lemma demo_Convert_face_count:
  "face_count (world_of (script Convert demo_host (demo_world [''/repo'', ''in.mesh'', ''out.obj'']))) = 1"
  by (simp add: ops_defs main_ConvertPLYtoOBJ_def demo_defs face_count_def)

subsection \<open>What a successful run leaves behind\<close>

text \<open>
  A run that ends in \<^verbatim>\<open>SystemExit(0)\<close> passed every statement of its script. For each
  script, the arguments and the input file of such a run satisfy what the statements
  need, and the final world is the starting world with the fields below replaced.
\<close>

lemma Inspect_success:
  assumes "script Inspect h w = Raise (SystemExit 0) w'"
    and "sys_argv w = pre @ ''--'' # args" and "''--'' \<notin> set pre"
  shows "\<exists>content found. 2 \<le> length args \<and> files w (args ! 1) = Some content
    \<and> read_obj h content = Some found \<and> found \<noteq> []
    \<and> w' = w\<lparr>sys_path := sys_path w @ [args ! 0],
             stdout := stdout w @ unlines
               [''FACE_COUNT_OUTPUT:'' @ str (length (polygons (fst (hd found)))),
                ''Mesh currently has '' @ str (length (polygons (fst (hd found)))) @ '' faces.''],
             objects := map imported found,
             active := (if objects w = [] then active w else None),
             calls := calls w @ [Sys_path_append (args ! 0)] @ reset_calls w @
               [Import_scene_obj (args ! 1),
                Stdout_write (''FACE_COUNT_OUTPUT:'' @ str (length (polygons (fst (hd found)))) @ [newline]),
                Stdout_write (''Mesh currently has '' @ str (length (polygons (fst (hd found))))
                                @ '' faces.'' @ [newline]),
                Sys_exit 0]\<rparr>"
  using assms
  by (auto simp: ops_defs main_CheckOBJMeshInfo_def index_of_append imported_def hd_conv_nth
      reset_calls_def unlines_def
      split: if_splits option.splits list.splits)

lemma Convert_success:
  assumes "script Convert h w = Raise (SystemExit 0) w'"
    and "sys_argv w = pre @ ''--'' # args" and "''--'' \<notin> set pre"
  shows "\<exists>content found. 3 \<le> length args \<and> files w (args ! 1) = Some content
    \<and> read_ply h content = Some found \<and> found \<noteq> [] \<and> can_write h (args ! 2)
    \<and> w' = w\<lparr>sys_path := sys_path w @ [args ! 0],
             stdout := stdout w @ unlines
               [''Importing mesh from '' @ args ! 1 @ ''.'',
                ''FACE_COUNT_OUTPUT:'' @ str (length (polygons (fst (hd found)))),
                ''Rotating mesh.'',
                ''Exporting mesh to '' @ args ! 2 @ ''.'',
                ''Finished operation. Mesh can be found at '' @ args ! 2 @ ''.''],
             files := (files w)(args ! 2 \<mapsto> write_obj h
                 ((map imported found)[0 := (imported (hd found))\<lparr>rotation_euler :=
                    (radians (- 90), fst (snd (snd (hd found))), radians 180)\<rparr>])),
             objects := (map imported found)[0 := (imported (hd found))\<lparr>rotation_euler :=
                    (radians (- 90), fst (snd (snd (hd found))), radians 180)\<rparr>],
             active := (if objects w = [] then active w else None),
             calls := calls w @ [Sys_path_append (args ! 0)] @ reset_calls w @
               [Stdout_write (''Importing mesh from '' @ args ! 1 @ ''.'' @ [newline]),
                Import_mesh_ply (args ! 1),
                Stdout_write (''FACE_COUNT_OUTPUT:'' @ str (length (polygons (fst (hd found)))) @ [newline]),
                Stdout_write (''Rotating mesh.'' @ [newline]),
                Set_rotation_euler 0 0 (radians (- 90)),
                Set_rotation_euler 0 2 (radians 180),
                Stdout_write (''Exporting mesh to '' @ args ! 2 @ ''.'' @ [newline]),
                Export_scene_obj (args ! 2),
                Stdout_write (''Finished operation. Mesh can be found at '' @ args ! 2 @ ''.'' @ [newline]),
                Sys_exit 0]\<rparr>"
  using assms
  by (auto simp: ops_defs main_ConvertPLYtoOBJ_def index_of_append imported_def hd_conv_nth
      reset_calls_def set_component_def Let_def unlines_def
      split: if_splits option.splits list.splits prod.splits)

lemma Simplify_success:
  assumes "script Simplify h w = Raise (SystemExit 0) w'"
    and "sys_argv w = pre @ ''--'' # args" and "''--'' \<notin> set pre"
  shows "\<exists>content found. 3 \<le> length args \<and> files w (args ! 1) = Some content
    \<and> read_obj h content = Some found \<and> found \<noteq> [] \<and> can_write h (args ! 2)
    \<and> w' = w\<lparr>sys_path := sys_path w @ [args ! 0],
             stdout := stdout w @ unlines
               [''Decimated mesh from '' @ str (length (polygons (fst (hd found)))) @ '' to ''
                  @ str (length (polygons (simplified h (fst (hd found))))) @ '' faces.'',
                ''FACE_COUNT_OUTPUT:'' @ str (length (polygons (simplified h (fst (hd found))))),
                ''Finished operation. Mesh can be found at '' @ args ! 2 @ ''.''],
             files := (files w)(args ! 2 \<mapsto> write_obj h
                 ((map imported found)[0 := (imported (hd found))\<lparr>data :=
                    simplified h (fst (hd found))\<rparr>])),
             objects := (map imported found)[0 := (imported (hd found))\<lparr>data :=
                    simplified h (fst (hd found))\<rparr>],
             active := Some 0,
             calls := calls w @ [Sys_path_append (args ! 0)] @ reset_calls w @
               [Import_scene_obj (args ! 1),
                Set_active 0,
                Modifier_add DECIMATE,
                Read_modifiers 0 0 [new_modifier h DECIMATE []],
                Set_decimate_type 0 ''Decimate'' ''DISSOLVE'',
                Set_angle_limit 0 ''Decimate'' 0.0872665,
                Modifier_apply ''DATA'' ''Decimate'',
                Modifier_add TRIANGULATE,
                Read_modifiers 0 0 [new_modifier h TRIANGULATE []],
                Modifier_apply ''DATA'' ''Triangulate'',
                Stdout_write (''Decimated mesh from '' @ str (length (polygons (fst (hd found)))) @ '' to ''
                  @ str (length (polygons (simplified h (fst (hd found))))) @ '' faces.'' @ [newline]),
                Stdout_write (''FACE_COUNT_OUTPUT:''
                  @ str (length (polygons (simplified h (fst (hd found))))) @ [newline]),
                Export_scene_obj (args ! 2),
                Stdout_write (''Finished operation. Mesh can be found at '' @ args ! 2 @ ''.'' @ [newline]),
                Sys_exit 0]\<rparr>"
  using assms
  by (auto simp: ops_defs main_SimplifyOBJ_def index_of_append imported_def hd_conv_nth
      reset_calls_def new_modifier_def default_name_def dissolve_def simplified_def Let_def
      unlines_def
      split: if_splits option.splits list.splits prod.splits)

lemma UV_Unwrap_success:
  assumes "script UV_Unwrap h w = Raise (SystemExit 0) w'"
    and "sys_argv w = pre @ ''--'' # args" and "''--'' \<notin> set pre"
  shows "\<exists>content found. 3 \<le> length args \<and> files w (args ! 1) = Some content
    \<and> read_obj h content = Some found \<and> found \<noteq> [] \<and> can_write h (args ! 2)
    \<and> w' = w\<lparr>sys_path := sys_path w @ [args ! 0],
             stdout := stdout w @ unlines
               [''Importing mesh from '' @ args ! 1 @ ''.'',
                ''Applying the Smart UV Project algorithm.'',
                ''Exporting mesh to '' @ args ! 2 @ ''.''],
             files := (files w)(args ! 2 \<mapsto> write_obj h
                 ((map imported found)[0 := (imported (hd found))\<lparr>data :=
                    smart_project h (select_faces h (fst (hd found)))\<rparr>])),
             objects := (map imported found)[0 := (imported (hd found))\<lparr>data :=
                    smart_project h (select_faces h (fst (hd found)))\<rparr>],
             active := Some 0,
             mode := ''OBJECT'',
             calls := calls w @ [Sys_path_append (args ! 0)] @ reset_calls w @
               [Stdout_write (''Importing mesh from '' @ args ! 1 @ ''.'' @ [newline]),
                Import_scene_obj (args ! 1),
                Set_active 0,
                Mode_set ''EDIT'',
                Mesh_select_all ''SELECT'',
                Stdout_write (''Applying the Smart UV Project algorithm.'' @ [newline]),
                Uv_smart_project,
                Mode_set ''OBJECT'',
                Stdout_write (''Exporting mesh to '' @ args ! 2 @ ''.'' @ [newline]),
                Export_scene_obj (args ! 2),
                Sys_exit 0]\<rparr>"
  using assms
  by (auto simp: ops_defs main_SmartUVProjectOBJ_def index_of_append imported_def hd_conv_nth
      reset_calls_def Let_def unlines_def
      split: if_splits option.splits list.splits prod.splits)

subsection \<open>The scene reset\<close>

text \<open>
  C2. Whatever the scene holds when the reset starts (no object, one, or many), the reset
  returns without raising and the scene then holds no object. On a scene that is already
  empty it makes no call at all and leaves the world as it was; otherwise it calls
  select-all and delete, once each. Running it again on its result changes nothing.
\<close>

theorem delete_all_on_start_empties_scene:
  "\<exists>w'. delete_all_on_start w = Return () w' \<and> objects w' = []
     \<and> new_calls w w' =
         (if objects w = [] then [] else [Object_select_all ''SELECT'', Object_delete False])
     \<and> (objects w = [] \<longrightarrow> w' = w)
     \<and> delete_all_on_start w' = Return () w'"
  by (simp add: delete_all_on_start_def bind_def object_select_all_def object_delete_def
      log_def new_calls_def filter_empty_conv)

theorem delete_all_on_start_witness:
  "objects empty_world = [] \<and> delete_all_on_start empty_world = Return () empty_world
   \<and> objects (world_of (delete_all_on_start (demo_world []))) = []"
  using delete_all_on_start_empties_scene [of empty_world]
    delete_all_on_start_empties_scene [of "demo_world []"]
  by (auto simp: empty_world_def)

subsection \<open>The face-count marker on standard output\<close>

text \<open>
  C1, as amended. Take a run that ends in \<^verbatim>\<open>SystemExit(0)\<close>. Among the lines it wrote to
  standard output, those that start with \<^verbatim>\<open>FACE_COUNT_OUTPUT:\<close> are, for Inspect, Convert and
  Simplify, exactly one, the prefix followed by the decimal face count of object 0 (a
  natural number), and for UV-Unwrap none, if and only if no path argument that the script
  copies to standard output contains a newline character immediately followed by
  \<^verbatim>\<open>FACE_COUNT_OUTPUT:\<close>. These path arguments are the input and the output path for Convert
  and UV-Unwrap, the output path for Simplify, and none for Inspect: for Inspect the claim
  holds as it stands.
\<close>

theorem face_count_marker_once:
  assumes run: "script c h w = Raise (SystemExit 0) w'"
    and argv: "sys_argv w = pre @ ''--'' # args" "''--'' \<notin> set pre"
  shows "marker_lines (emitted w w') =
           (if c = UV_Unwrap then [] else [''FACE_COUNT_OUTPUT:'' @ str (face_count w')])
         \<longleftrightarrow> (\<forall>p \<in> set (echoed c args). \<not> sublist (newline # ''FACE_COUNT_OUTPUT:'') p)"
proof (cases c)
  case Inspect
  define A1 where "A1 = ''FACE_COUNT_OUTPUT:'' @ str (face_count w')"
  define A2 where "A2 = ''Mesh currently has '' @ str (face_count w') @ '' faces.''"
  from Inspect_success [OF run [unfolded Inspect] argv]
  obtain found where f: "found \<noteq> []"
    and out0: "emitted w w' = unlines
               [''FACE_COUNT_OUTPUT:'' @ str (length (polygons (fst (hd found)))),
                ''Mesh currently has '' @ str (length (polygons (fst (hd found)))) @ '' faces.'']"
    and objs: "objects w' = map imported found"
    by (auto simp: emitted_def)
  have n: "face_count w' = length (polygons (fst (hd found)))"
    using f by (simp add: objs face_count_def imported_def hd_conv_nth)
  have out: "emitted w w' = unlines [A1, A2]"
    by (simp add: out0 n A1_def A2_def)
  have c1: "marker_lines (A1 @ [newline]) = [A1]"
    using chunk_plain [of A1] unfolding A1_def
    by (simp add: str_no_newline [unfolded newline_def] newline_def)
  have c2: "marker_lines (A2 @ [newline]) = []"
    using chunk_plain [of A2] unfolding A2_def
    by (simp add: str_no_newline [unfolded newline_def] newline_def)
  have "marker_lines (emitted w w') = [A1]"
    by (simp add: out marker_lines_unlines_chunks c1 c2)
  then show ?thesis
    using Inspect by (simp add: A1_def)
next
  case Convert
  define A1 where "A1 = ''Importing mesh from '' @ args ! 1 @ ''.''"
  define A2 where "A2 = ''FACE_COUNT_OUTPUT:'' @ str (face_count w')"
  define A3 where "A3 = ''Rotating mesh.''"
  define A4 where "A4 = ''Exporting mesh to '' @ args ! 2 @ ''.''"
  define A5 where "A5 = ''Finished operation. Mesh can be found at '' @ args ! 2 @ ''.''"
  from Convert_success [OF run [unfolded Convert] argv]
  obtain found where f: "found \<noteq> []"
    and out0: "emitted w w' = unlines
               [''Importing mesh from '' @ args ! 1 @ ''.'',
                ''FACE_COUNT_OUTPUT:'' @ str (length (polygons (fst (hd found)))),
                ''Rotating mesh.'',
                ''Exporting mesh to '' @ args ! 2 @ ''.'',
                ''Finished operation. Mesh can be found at '' @ args ! 2 @ ''.'']"
    and objs: "objects w' = (map imported found)[0 := (imported (hd found))\<lparr>rotation_euler :=
                    (radians (- 90), fst (snd (snd (hd found))), radians 180)\<rparr>]"
    by (auto simp: emitted_def)
  have n: "face_count w' = length (polygons (fst (hd found)))"
    using f by (simp add: objs face_count_def imported_def)
  have out: "emitted w w' = unlines [A1, A2, A3, A4, A5]"
    by (simp add: out0 n A1_def A2_def A3_def A4_def A5_def)
  have c1: "(marker_lines (A1 @ [newline]) = []) \<longleftrightarrow> \<not> sublist (newline # ''FACE_COUNT_OUTPUT:'') (args ! 1)"
    unfolding A1_def by (rule chunk_path_iff) (simp_all add: newline_def)
  have c2: "marker_lines (A2 @ [newline]) = [A2]"
    using chunk_plain [of A2] unfolding A2_def
    by (simp add: str_no_newline [unfolded newline_def] newline_def)
  have c3: "marker_lines (A3 @ [newline]) = []"
    using chunk_plain [of A3] unfolding A3_def by (simp add: newline_def)
  have c4: "(marker_lines (A4 @ [newline]) = []) \<longleftrightarrow> \<not> sublist (newline # ''FACE_COUNT_OUTPUT:'') (args ! 2)"
    unfolding A4_def by (rule chunk_path_iff) (simp_all add: newline_def)
  have c5: "(marker_lines (A5 @ [newline]) = []) \<longleftrightarrow> \<not> sublist (newline # ''FACE_COUNT_OUTPUT:'') (args ! 2)"
    unfolding A5_def by (rule chunk_path_iff) (simp_all add: newline_def)
  have "marker_lines (emitted w w') =
          marker_lines (A1 @ [newline]) @ A2 # marker_lines (A4 @ [newline]) @ marker_lines (A5 @ [newline])"
    by (simp add: out marker_lines_unlines_chunks c2 c3)
  then have "marker_lines (emitted w w') = [A2] \<longleftrightarrow>
      \<not> sublist (newline # ''FACE_COUNT_OUTPUT:'') (args ! 1) \<and> \<not> sublist (newline # ''FACE_COUNT_OUTPUT:'') (args ! 2)"
    using c1 c4 c5 by (simp add: single_between)
  then show ?thesis
    using Convert by (simp add: A2_def)
next
  case Simplify
  from Simplify_success [OF run [unfolded Simplify] argv]
  obtain found where f: "found \<noteq> []"
    and out0: "emitted w w' = unlines
               [''Decimated mesh from '' @ str (length (polygons (fst (hd found)))) @ '' to ''
                  @ str (length (polygons (simplified h (fst (hd found))))) @ '' faces.'',
                ''FACE_COUNT_OUTPUT:'' @ str (length (polygons (simplified h (fst (hd found))))),
                ''Finished operation. Mesh can be found at '' @ args ! 2 @ ''.'']"
    and objs: "objects w' = (map imported found)[0 := (imported (hd found))\<lparr>data :=
                    simplified h (fst (hd found))\<rparr>]"
    by (auto simp: emitted_def)
  define A1 where "A1 = ''Decimated mesh from '' @ str (length (polygons (fst (hd found)))) @ '' to ''
                  @ str (face_count w') @ '' faces.''"
  define A2 where "A2 = ''FACE_COUNT_OUTPUT:'' @ str (face_count w')"
  define A3 where "A3 = ''Finished operation. Mesh can be found at '' @ args ! 2 @ ''.''"
  have n: "face_count w' = length (polygons (simplified h (fst (hd found))))"
    using f by (simp add: objs face_count_def imported_def)
  have out: "emitted w w' = unlines [A1, A2, A3]"
    by (simp add: out0 n A1_def A2_def A3_def)
  have c1: "marker_lines (A1 @ [newline]) = []"
    using chunk_plain [of A1] unfolding A1_def
    by (simp add: str_no_newline [unfolded newline_def] newline_def)
  have c2: "marker_lines (A2 @ [newline]) = [A2]"
    using chunk_plain [of A2] unfolding A2_def
    by (simp add: str_no_newline [unfolded newline_def] newline_def)
  have c3: "(marker_lines (A3 @ [newline]) = []) \<longleftrightarrow> \<not> sublist (newline # ''FACE_COUNT_OUTPUT:'') (args ! 2)"
    unfolding A3_def by (rule chunk_path_iff) (simp_all add: newline_def)
  have "marker_lines (emitted w w') = [] @ A2 # marker_lines (A3 @ [newline])"
    by (simp add: out marker_lines_unlines_chunks c1 c2)
  then have "marker_lines (emitted w w') = [A2] \<longleftrightarrow>
      \<not> sublist (newline # ''FACE_COUNT_OUTPUT:'') (args ! 2)"
    using c3 by (simp only: single_between) simp
  then show ?thesis
    using Simplify by (simp add: A2_def)
next
  case UV_Unwrap
  define A1 where "A1 = ''Importing mesh from '' @ args ! 1 @ ''.''"
  define A2 where "A2 = ''Applying the Smart UV Project algorithm.''"
  define A3 where "A3 = ''Exporting mesh to '' @ args ! 2 @ ''.''"
  from UV_Unwrap_success [OF run [unfolded UV_Unwrap] argv]
  have out0: "emitted w w' = unlines
               [''Importing mesh from '' @ args ! 1 @ ''.'',
                ''Applying the Smart UV Project algorithm.'',
                ''Exporting mesh to '' @ args ! 2 @ ''.'']"
    by (auto simp: emitted_def)
  have out: "emitted w w' = unlines [A1, A2, A3]"
    by (simp add: out0 A1_def A2_def A3_def)
  have c1: "(marker_lines (A1 @ [newline]) = []) \<longleftrightarrow> \<not> sublist (newline # ''FACE_COUNT_OUTPUT:'') (args ! 1)"
    unfolding A1_def by (rule chunk_path_iff) (simp_all add: newline_def)
  have c2: "marker_lines (A2 @ [newline]) = []"
    using chunk_plain [of A2] unfolding A2_def by (simp add: newline_def)
  have c3: "(marker_lines (A3 @ [newline]) = []) \<longleftrightarrow> \<not> sublist (newline # ''FACE_COUNT_OUTPUT:'') (args ! 2)"
    unfolding A3_def by (rule chunk_path_iff) (simp_all add: newline_def)
  have "marker_lines (emitted w w') = marker_lines (A1 @ [newline]) @ marker_lines (A3 @ [newline])"
    by (simp add: out marker_lines_unlines_chunks c2)
  then have "marker_lines (emitted w w') = [] \<longleftrightarrow>
      \<not> sublist (newline # ''FACE_COUNT_OUTPUT:'') (args ! 1) \<and> \<not> sublist (newline # ''FACE_COUNT_OUTPUT:'') (args ! 2)"
    using c1 c3 by simp
  then show ?thesis
    using UV_Unwrap by simp
qed

text \<open>
  Without the condition on the paths the claim fails. Convert and UV-Unwrap copy their
  path arguments to standard output, so an output path with line breaks in it puts lines
  of its own there: Convert then writes three lines with the prefix, UV-Unwrap one.
\<close>

theorem face_count_marker_injected:
  "raised (script Convert demo_host (demo_world [''/repo'', ''in.mesh'', broken_path])) = Some (SystemExit 0)
   \<and> marker_lines (emitted (demo_world [''/repo'', ''in.mesh'', broken_path])
        (world_of (script Convert demo_host (demo_world [''/repo'', ''in.mesh'', broken_path]))))
       = [''FACE_COUNT_OUTPUT:1'', ''FACE_COUNT_OUTPUT:7'', ''FACE_COUNT_OUTPUT:7'']
   \<and> raised (script UV_Unwrap demo_host (demo_world [''/repo'', ''in.mesh'', broken_path])) = Some (SystemExit 0)
   \<and> marker_lines (emitted (demo_world [''/repo'', ''in.mesh'', broken_path])
        (world_of (script UV_Unwrap demo_host (demo_world [''/repo'', ''in.mesh'', broken_path]))))
       = [''FACE_COUNT_OUTPUT:7'']"
  by (simp add: ops_defs main_ConvertPLYtoOBJ_def main_SmartUVProjectOBJ_def demo_defs
      broken_path_def emitted_def marker_lines_def newline_def str.simps)

theorem face_count_marker_once_witness:
  "marker_lines (emitted (demo_world [''/repo'', ''in.mesh'', ''out.obj''])
        (world_of (script Convert demo_host (demo_world [''/repo'', ''in.mesh'', ''out.obj'']))))
       = [''FACE_COUNT_OUTPUT:1'']
   \<and> marker_lines (emitted ((demo_world [''/repo'', broken_path])\<lparr>files := [broken_path \<mapsto> ''quad'']\<rparr>)
        (world_of (script Inspect demo_host
           ((demo_world [''/repo'', broken_path])\<lparr>files := [broken_path \<mapsto> ''quad'']\<rparr>))))
       = [''FACE_COUNT_OUTPUT:1'']"
proof -
  have p: "\<forall>p \<in> set (echoed Convert [''/repo'', ''in.mesh'', ''out.obj'']).
             \<not> sublist (newline # ''FACE_COUNT_OUTPUT:'') p"
    by (simp add: sublist_code newline_def)
  have q: "\<forall>p \<in> set (echoed Inspect [''/repo'', broken_path]).
             \<not> sublist (newline # ''FACE_COUNT_OUTPUT:'') p"
    by simp
  from face_count_marker_once [OF raised_world_of [OF demo_Convert_exit] demo_argv] p
  have a: "marker_lines (emitted (demo_world [''/repo'', ''in.mesh'', ''out.obj''])
        (world_of (script Convert demo_host (demo_world [''/repo'', ''in.mesh'', ''out.obj'']))))
       = [''FACE_COUNT_OUTPUT:'' @ str 1]"
    unfolding demo_Convert_face_count by simp
  from face_count_marker_once [OF raised_world_of [OF demo_Inspect_broken_exit(1)]
      demo_Inspect_broken_exit(2) demo_argv(2)] q
  have b: "marker_lines (emitted ((demo_world [''/repo'', broken_path])\<lparr>files := [broken_path \<mapsto> ''quad'']\<rparr>)
        (world_of (script Inspect demo_host
           ((demo_world [''/repo'', broken_path])\<lparr>files := [broken_path \<mapsto> ''quad'']\<rparr>))))
       = [''FACE_COUNT_OUTPUT:'' @ str 1]"
    unfolding demo_Inspect_broken_exit(3) by simp
  show ?thesis
    using a b unfolding str_small by simp
qed

subsection \<open>Simplify: report, then export\<close>

text \<open>
  C3, as amended. In a run of Simplify that ends in \<^verbatim>\<open>SystemExit(0)\<close>, the calls after the
  last transform (applying the Triangulate modifier) are, in this order: the write of the
  before/after info line, the write of the \<^verbatim>\<open>FACE_COUNT_OUTPUT\<close> marker line with the new
  face count, the OBJ export to the output path, the closing message, and the exit. So the
  info line comes first and the marker second, both before the export; nothing is written
  to standard output and nothing is exported before them.
\<close>

theorem Simplify_reports_then_exports:
  assumes run: "script Simplify h w = Raise (SystemExit 0) w'"
    and argv: "sys_argv w = pre @ ''--'' # args" "''--'' \<notin> set pre"
  shows "\<exists>before original. new_calls w w' = before @
           [Modifier_apply ''DATA'' ''Triangulate'',
            Stdout_write (''Decimated mesh from '' @ str original @ '' to '' @ str (face_count w')
                            @ '' faces.'' @ [newline]),
            Stdout_write (''FACE_COUNT_OUTPUT:'' @ str (face_count w') @ [newline]),
            Export_scene_obj (args ! 2),
            Stdout_write (''Finished operation. Mesh can be found at '' @ args ! 2 @ ''.'' @ [newline]),
            Sys_exit 0]
         \<and> filter is_stdout before = [] \<and> filter is_export before = []"
proof -
  from Simplify_success [OF run argv]
  obtain found where f: "found \<noteq> []"
    and cs: "new_calls w w' = [Sys_path_append (args ! 0)] @ reset_calls w @
               [Import_scene_obj (args ! 1),
                Set_active 0,
                Modifier_add DECIMATE,
                Read_modifiers 0 0 [new_modifier h DECIMATE []],
                Set_decimate_type 0 ''Decimate'' ''DISSOLVE'',
                Set_angle_limit 0 ''Decimate'' 0.0872665,
                Modifier_apply ''DATA'' ''Decimate'',
                Modifier_add TRIANGULATE,
                Read_modifiers 0 0 [new_modifier h TRIANGULATE []],
                Modifier_apply ''DATA'' ''Triangulate'',
                Stdout_write (''Decimated mesh from '' @ str (length (polygons (fst (hd found)))) @ '' to ''
                  @ str (length (polygons (simplified h (fst (hd found))))) @ '' faces.'' @ [newline]),
                Stdout_write (''FACE_COUNT_OUTPUT:''
                  @ str (length (polygons (simplified h (fst (hd found))))) @ [newline]),
                Export_scene_obj (args ! 2),
                Stdout_write (''Finished operation. Mesh can be found at '' @ args ! 2 @ ''.'' @ [newline]),
                Sys_exit 0]"
    and objs: "objects w' = (map imported found)[0 := (imported (hd found))\<lparr>data :=
                    simplified h (fst (hd found))\<rparr>]"
    by (auto simp: new_calls_def)
  have n: "face_count w' = length (polygons (simplified h (fst (hd found))))"
    using f by (simp add: objs face_count_def imported_def)
  show ?thesis
    unfolding cs n
    by (rule exI [of _ "[Sys_path_append (args ! 0)] @ reset_calls w @
               [Import_scene_obj (args ! 1),
                Set_active 0,
                Modifier_add DECIMATE,
                Read_modifiers 0 0 [new_modifier h DECIMATE []],
                Set_decimate_type 0 ''Decimate'' ''DISSOLVE'',
                Set_angle_limit 0 ''Decimate'' 0.0872665,
                Modifier_apply ''DATA'' ''Decimate'',
                Modifier_add TRIANGULATE,
                Read_modifiers 0 0 [new_modifier h TRIANGULATE []]]"],
        rule exI [of _ "length (polygons (fst (hd found)))"])
      (simp add: reset_calls_def)
qed

text \<open>
  The order stated in the claim, marker first and info line second, is not the order of
  the script: on the small host the three lines of a Simplify run are these.
\<close>

theorem Simplify_info_before_marker:
  "raised (script Simplify demo_host (demo_world [''/repo'', ''in.mesh'', ''out.obj''])) = Some (SystemExit 0)
   \<and> splitlines (emitted (demo_world [''/repo'', ''in.mesh'', ''out.obj''])
        (world_of (script Simplify demo_host (demo_world [''/repo'', ''in.mesh'', ''out.obj'']))))
       = [''Decimated mesh from 1 to 2 faces.'', ''FACE_COUNT_OUTPUT:2'',
          ''Finished operation. Mesh can be found at out.obj.'']"
  by (simp add: ops_defs main_SimplifyOBJ_def demo_defs
      emitted_def newline_def str.simps)

theorem Simplify_reports_then_exports_witness:
  "\<exists>before original.
     new_calls (demo_world [''/repo'', ''in.mesh'', ''out.obj''])
       (world_of (script Simplify demo_host (demo_world [''/repo'', ''in.mesh'', ''out.obj'']))) =
     before @
       [Modifier_apply ''DATA'' ''Triangulate'',
        Stdout_write (''Decimated mesh from '' @ str original @ '' to '' @ ''2'' @ '' faces.'' @ [newline]),
        Stdout_write (''FACE_COUNT_OUTPUT:'' @ ''2'' @ [newline]),
        Export_scene_obj ''out.obj'',
        Stdout_write (''Finished operation. Mesh can be found at '' @ ''out.obj'' @ ''.'' @ [newline]),
        Sys_exit 0]"
proof -
  have n: "face_count (world_of (script Simplify demo_host (demo_world [''/repo'', ''in.mesh'', ''out.obj'']))) = 2"
    by (simp add: ops_defs main_SimplifyOBJ_def demo_defs face_count_def)
  show ?thesis
    using Simplify_reports_then_exports [OF raised_world_of [OF demo_Simplify_exit] demo_argv]
    unfolding n by (auto simp: str_small)
qed

subsection \<open>Simplify: decimate, then triangulate\<close>

text \<open>
  C4. In a run of Simplify that ends in \<^verbatim>\<open>SystemExit(0)\<close>, the calls that can change a mesh
  are exactly these six, in this order: a Decimate modifier is added, its
  \<^verbatim>\<open>decimate_type\<close> is set to \<^verbatim>\<open>'DISSOLVE'\<close> and its \<^verbatim>\<open>angle_limit\<close> to the literal
  \<^verbatim>\<open>0.0872665\<close>, it is applied with \<^verbatim>\<open>apply_as='DATA'\<close>; then a Triangulate modifier is added
  and applied the same way. The mesh of object 0 at the end is the host's Triangulate
  modifier applied to the host's Decimate modifier (with these two settings) applied to
  the imported mesh, no modifier is left on the object, and the info line reports the face
  count of the imported mesh as the original and the face count of the final mesh as the
  new one.
\<close>

theorem Simplify_decimates_then_triangulates:
  assumes run: "script Simplify h w = Raise (SystemExit 0) w'"
    and argv: "sys_argv w = pre @ ''--'' # args" "''--'' \<notin> set pre"
  shows "\<exists>content found.
           files w (args ! 1) = Some content \<and> read_obj h content = Some found \<and> found \<noteq> []
         \<and> filter is_transform (new_calls w w') =
             [Modifier_add DECIMATE,
              Set_decimate_type 0 ''Decimate'' ''DISSOLVE'',
              Set_angle_limit 0 ''Decimate'' 0.0872665,
              Modifier_apply ''DATA'' ''Decimate'',
              Modifier_add TRIANGULATE,
              Modifier_apply ''DATA'' ''Triangulate'']
         \<and> data (objects w' ! 0) =
             run_modifier h
               \<lparr>name = ''Triangulate'', mod_type = TRIANGULATE, decimate_type = ''COLLAPSE'',
                angle_limit = default_angle_limit h\<rparr>
               (run_modifier h
                  \<lparr>name = ''Decimate'', mod_type = DECIMATE, decimate_type = ''DISSOLVE'',
                   angle_limit = 0.0872665\<rparr>
                  (fst (hd found)))
         \<and> modifiers (objects w' ! 0) = []
         \<and> splitlines (emitted w w') ! 0 =
             ''Decimated mesh from '' @ str (length (polygons (fst (hd found)))) @ '' to ''
               @ str (face_count w') @ '' faces.''"
proof -
  from Simplify_success [OF run argv]
  obtain content found where f: "files w (args ! 1) = Some content" "read_obj h content = Some found"
      "found \<noteq> []"
    and cs: "new_calls w w' = [Sys_path_append (args ! 0)] @ reset_calls w @
               [Import_scene_obj (args ! 1),
                Set_active 0,
                Modifier_add DECIMATE,
                Read_modifiers 0 0 [new_modifier h DECIMATE []],
                Set_decimate_type 0 ''Decimate'' ''DISSOLVE'',
                Set_angle_limit 0 ''Decimate'' 0.0872665,
                Modifier_apply ''DATA'' ''Decimate'',
                Modifier_add TRIANGULATE,
                Read_modifiers 0 0 [new_modifier h TRIANGULATE []],
                Modifier_apply ''DATA'' ''Triangulate'',
                Stdout_write (''Decimated mesh from '' @ str (length (polygons (fst (hd found)))) @ '' to ''
                  @ str (length (polygons (simplified h (fst (hd found))))) @ '' faces.'' @ [newline]),
                Stdout_write (''FACE_COUNT_OUTPUT:''
                  @ str (length (polygons (simplified h (fst (hd found))))) @ [newline]),
                Export_scene_obj (args ! 2),
                Stdout_write (''Finished operation. Mesh can be found at '' @ args ! 2 @ ''.'' @ [newline]),
                Sys_exit 0]"
    and objs: "objects w' = (map imported found)[0 := (imported (hd found))\<lparr>data :=
                    simplified h (fst (hd found))\<rparr>]"
    and out: "emitted w w' = unlines
               [''Decimated mesh from '' @ str (length (polygons (fst (hd found)))) @ '' to ''
                  @ str (length (polygons (simplified h (fst (hd found))))) @ '' faces.'',
                ''FACE_COUNT_OUTPUT:'' @ str (length (polygons (simplified h (fst (hd found))))),
                ''Finished operation. Mesh can be found at '' @ args ! 2 @ ''.'']"
    by (auto simp: new_calls_def emitted_def)
  have n: "face_count w' = length (polygons (simplified h (fst (hd found))))"
    using f by (simp add: objs face_count_def imported_def)
  have tr: "filter is_transform (new_calls w w') =
             [Modifier_add DECIMATE,
              Set_decimate_type 0 ''Decimate'' ''DISSOLVE'',
              Set_angle_limit 0 ''Decimate'' 0.0872665,
              Modifier_apply ''DATA'' ''Decimate'',
              Modifier_add TRIANGULATE,
              Modifier_apply ''DATA'' ''Triangulate'']"
    unfolding cs by (simp add: reset_calls_def)
  have d: "data (objects w' ! 0) = simplified h (fst (hd found))"
    and m: "modifiers (objects w' ! 0) = []"
    using f by (simp_all add: objs imported_def)
  have l1: "newline \<notin> set (''Decimated mesh from '' @ str (length (polygons (fst (hd found)))) @ '' to ''
                  @ str (length (polygons (simplified h (fst (hd found))))) @ '' faces.'')"
    by (simp add: str_no_newline [unfolded newline_def] newline_def)
  have first: "splitlines (emitted w w') ! 0 =
      ''Decimated mesh from '' @ str (length (polygons (fst (hd found)))) @ '' to ''
                  @ str (length (polygons (simplified h (fst (hd found))))) @ '' faces.''"
    unfolding out unlines_def using splitlines_line [OF l1] by simp
  show ?thesis
    using f tr m first d unfolding n
    by (simp add: simplified_def dissolve_def new_modifier_def default_name_def)
qed

theorem Simplify_decimates_then_triangulates_witness:
  "polygons (data (objects (world_of
      (script Simplify demo_host (demo_world [''/repo'', ''in.mesh'', ''out.obj''])) ) ! 0))
     = [[0, 1, 2], [0, 2, 3]]
   \<and> filter is_transform (new_calls (demo_world [''/repo'', ''in.mesh'', ''out.obj''])
        (world_of (script Simplify demo_host (demo_world [''/repo'', ''in.mesh'', ''out.obj''])))) =
             [Modifier_add DECIMATE,
              Set_decimate_type 0 ''Decimate'' ''DISSOLVE'',
              Set_angle_limit 0 ''Decimate'' 0.0872665,
              Modifier_apply ''DATA'' ''Decimate'',
              Modifier_add TRIANGULATE,
              Modifier_apply ''DATA'' ''Triangulate'']"
  using Simplify_decimates_then_triangulates [OF raised_world_of [OF demo_Simplify_exit] demo_argv]
  by (auto simp: demo_host_def demo_world_def quad_def)

subsection \<open>Convert: the fixed rotation\<close>

text \<open>
  C5. In a run of Convert that ends in \<^verbatim>\<open>SystemExit(0)\<close>, the calls end with: the write of
  the face-count marker, the progress line, the assignment of \<^verbatim>\<open>radians(-90)\<close> to
  \<^verbatim>\<open>rotation_euler[0]\<close> of object 0, the assignment of \<^verbatim>\<open>radians(180)\<close> to
  \<^verbatim>\<open>rotation_euler[2]\<close>, the progress line, the OBJ export, the closing message and the exit;
  nothing before them rotates, transforms or exports. Object 0 then has the Euler rotation
  \<open>- \<pi> / 2\<close> (minus 90 degrees) about the first axis and \<open>\<pi>\<close> (180 degrees) about the third,
  with the second component as imported. The two angles are constants of the script: they
  are the same for every host, argument vector and input file. The exported scene is the
  rotated one, and the mesh of object 0 is the imported mesh, unchanged.
\<close>

theorem Convert_rotates_before_export:
  assumes run: "script Convert h w = Raise (SystemExit 0) w'"
    and argv: "sys_argv w = pre @ ''--'' # args" "''--'' \<notin> set pre"
  shows "\<exists>before content found.
           files w (args ! 1) = Some content \<and> read_ply h content = Some found \<and> found \<noteq> []
         \<and> new_calls w w' = before @
             [Stdout_write (''FACE_COUNT_OUTPUT:'' @ str (face_count w') @ [newline]),
              Stdout_write (''Rotating mesh.'' @ [newline]),
              Set_rotation_euler 0 0 (radians (- 90)),
              Set_rotation_euler 0 2 (radians 180),
              Stdout_write (''Exporting mesh to '' @ args ! 2 @ ''.'' @ [newline]),
              Export_scene_obj (args ! 2),
              Stdout_write (''Finished operation. Mesh can be found at '' @ args ! 2 @ ''.'' @ [newline]),
              Sys_exit 0]
         \<and> filter is_transform before = [] \<and> filter is_export before = []
         \<and> rotation_euler (objects w' ! 0) =
             (- (pi / 2), fst (snd (snd (hd found))), pi)
         \<and> data (objects w' ! 0) = fst (hd found)
         \<and> files w' (args ! 2) = Some (write_obj h (objects w'))"
proof -
  from Convert_success [OF run argv]
  obtain content found where f: "files w (args ! 1) = Some content" "read_ply h content = Some found"
      "found \<noteq> []"
    and cs: "new_calls w w' = [Sys_path_append (args ! 0)] @ reset_calls w @
               [Stdout_write (''Importing mesh from '' @ args ! 1 @ ''.'' @ [newline]),
                Import_mesh_ply (args ! 1),
                Stdout_write (''FACE_COUNT_OUTPUT:'' @ str (length (polygons (fst (hd found)))) @ [newline]),
                Stdout_write (''Rotating mesh.'' @ [newline]),
                Set_rotation_euler 0 0 (radians (- 90)),
                Set_rotation_euler 0 2 (radians 180),
                Stdout_write (''Exporting mesh to '' @ args ! 2 @ ''.'' @ [newline]),
                Export_scene_obj (args ! 2),
                Stdout_write (''Finished operation. Mesh can be found at '' @ args ! 2 @ ''.'' @ [newline]),
                Sys_exit 0]"
    and objs: "objects w' = (map imported found)[0 := (imported (hd found))\<lparr>rotation_euler :=
                    (radians (- 90), fst (snd (snd (hd found))), radians 180)\<rparr>]"
    and fs: "files w' = (files w)(args ! 2 \<mapsto> write_obj h
                 ((map imported found)[0 := (imported (hd found))\<lparr>rotation_euler :=
                    (radians (- 90), fst (snd (snd (hd found))), radians 180)\<rparr>]))"
    by (auto simp: new_calls_def)
  have n: "face_count w' = length (polygons (fst (hd found)))"
    using f by (simp add: objs face_count_def imported_def)
  have r: "rotation_euler (objects w' ! 0) = (- (pi / 2), fst (snd (snd (hd found))), pi)"
    and d: "data (objects w' ! 0) = fst (hd found)"
    using f by (simp_all add: objs imported_def radians_def)
  have e: "files w' (args ! 2) = Some (write_obj h (objects w'))"
    by (simp add: fs objs)
  have "new_calls w w' = ([Sys_path_append (args ! 0)] @ reset_calls w @
               [Stdout_write (''Importing mesh from '' @ args ! 1 @ ''.'' @ [newline]),
                Import_mesh_ply (args ! 1)]) @
             [Stdout_write (''FACE_COUNT_OUTPUT:'' @ str (face_count w') @ [newline]),
              Stdout_write (''Rotating mesh.'' @ [newline]),
              Set_rotation_euler 0 0 (radians (- 90)),
              Set_rotation_euler 0 2 (radians 180),
              Stdout_write (''Exporting mesh to '' @ args ! 2 @ ''.'' @ [newline]),
              Export_scene_obj (args ! 2),
              Stdout_write (''Finished operation. Mesh can be found at '' @ args ! 2 @ ''.'' @ [newline]),
              Sys_exit 0]"
    unfolding cs n by simp
  moreover have "filter is_transform ([Sys_path_append (args ! 0)] @ reset_calls w @
               [Stdout_write (''Importing mesh from '' @ args ! 1 @ ''.'' @ [newline]),
                Import_mesh_ply (args ! 1)]) = []"
    and "filter is_export ([Sys_path_append (args ! 0)] @ reset_calls w @
               [Stdout_write (''Importing mesh from '' @ args ! 1 @ ''.'' @ [newline]),
                Import_mesh_ply (args ! 1)]) = []"
    by (simp_all add: reset_calls_def)
  ultimately show ?thesis
    using f r d e by blast
qed

theorem Convert_rotates_before_export_witness:
  "rotation_euler (objects (world_of
      (script Convert demo_host (demo_world [''/repo'', ''in.mesh'', ''out.obj''])) ) ! 0)
     = (- (pi / 2), 0, pi)
   \<and> files (world_of (script Convert demo_host (demo_world [''/repo'', ''in.mesh'', ''out.obj'']))) ''out.obj''
     = Some (write_obj demo_host (objects (world_of
         (script Convert demo_host (demo_world [''/repo'', ''in.mesh'', ''out.obj''])))))"
  using Convert_rotates_before_export [OF raised_world_of [OF demo_Convert_exit] demo_argv]
  by (auto simp: demo_host_def demo_world_def quad_def)

subsection \<open>The argument vector\<close>

text \<open>
  C6. When \<^verbatim>\<open>sys.argv\<close> contains \<^verbatim>\<open>"--"\<close>, the arguments of a connector are what follows
  its first occurrence. In a run that ends in \<^verbatim>\<open>SystemExit(0)\<close> they were read by position:
  element 0 was appended to the module search path, element 1 is the path of the one
  import call (and names an existing file), and, for Convert, Simplify and UV-Unwrap,
  element 2 is the path of the one export call and the only file written. Inspect makes no
  export call, writes no file, and needs two arguments only.
\<close>

theorem arguments_are_positional:
  assumes argv: "sys_argv w = pre @ ''--'' # args" "''--'' \<notin> set pre"
  shows "argv_after_separator w = Return args w
       \<and> (script c h w = Raise (SystemExit 0) w' \<longrightarrow>
            required c \<le> length args
          \<and> sys_path w' = sys_path w @ [args ! 0]
          \<and> filter is_import (new_calls w w') = [import_call c (args ! 1)]
          \<and> files w (args ! 1) \<noteq> None
          \<and> filter is_export (new_calls w w') =
               (if c = Inspect then [] else [Export_scene_obj (args ! 2)])
          \<and> files w' =
               (if c = Inspect then files w else (files w)(args ! 2 \<mapsto> write_obj h (objects w'))))"
proof (intro conjI impI)
  show "argv_after_separator w = Return args w"
    using argv by (simp add: argv_after_separator_def index_of_append)
next
  assume run: "script c h w = Raise (SystemExit 0) w'"
  have "required c \<le> length args
          \<and> sys_path w' = sys_path w @ [args ! 0]
          \<and> filter is_import (new_calls w w') = [import_call c (args ! 1)]
          \<and> files w (args ! 1) \<noteq> None
          \<and> filter is_export (new_calls w w') =
               (if c = Inspect then [] else [Export_scene_obj (args ! 2)])
          \<and> files w' =
               (if c = Inspect then files w else (files w)(args ! 2 \<mapsto> write_obj h (objects w')))"
  proof (cases c)
    case Inspect
    from Inspect_success [OF run [unfolded Inspect] argv] show ?thesis
      unfolding Inspect by (auto simp: new_calls_def reset_calls_def)
  next
    case Convert
    from Convert_success [OF run [unfolded Convert] argv] show ?thesis
      unfolding Convert by (auto simp: new_calls_def reset_calls_def)
  next
    case Simplify
    from Simplify_success [OF run [unfolded Simplify] argv] show ?thesis
      unfolding Simplify by (auto simp: new_calls_def reset_calls_def)
  next
    case UV_Unwrap
    from UV_Unwrap_success [OF run [unfolded UV_Unwrap] argv] show ?thesis
      unfolding UV_Unwrap by (auto simp: new_calls_def reset_calls_def)
  qed
  then show "required c \<le> length args" 
    and "sys_path w' = sys_path w @ [args ! 0]"
    and "filter is_import (new_calls w w') = [import_call c (args ! 1)]"
    and "files w (args ! 1) \<noteq> None"
    and "filter is_export (new_calls w w') =
               (if c = Inspect then [] else [Export_scene_obj (args ! 2)])"
    and "files w' =
               (if c = Inspect then files w else (files w)(args ! 2 \<mapsto> write_obj h (objects w')))"
    by blast+
qed

theorem arguments_are_positional_witness:
  "argv_after_separator (demo_world [''/repo'', ''in.mesh'']) =
     Return [''/repo'', ''in.mesh''] (demo_world [''/repo'', ''in.mesh''])
   \<and> sys_path (world_of (script Inspect demo_host (demo_world [''/repo'', ''in.mesh'']))) = [''/repo'']
   \<and> filter is_import (new_calls (demo_world [''/repo'', ''in.mesh''])
        (world_of (script Inspect demo_host (demo_world [''/repo'', ''in.mesh''])))) =
       [Import_scene_obj ''in.mesh'']
   \<and> filter is_export (new_calls (demo_world [''/repo'', ''in.mesh''])
        (world_of (script Inspect demo_host (demo_world [''/repo'', ''in.mesh''])))) = []
   \<and> filter is_import (new_calls (demo_world [''/repo'', ''in.mesh'', ''out.obj''])
        (world_of (script Convert demo_host (demo_world [''/repo'', ''in.mesh'', ''out.obj''])))) =
       [Import_mesh_ply ''in.mesh'']
   \<and> filter is_export (new_calls (demo_world [''/repo'', ''in.mesh'', ''out.obj''])
        (world_of (script Convert demo_host (demo_world [''/repo'', ''in.mesh'', ''out.obj''])))) =
       [Export_scene_obj ''out.obj'']"
  using arguments_are_positional [OF demo_argv, of "[''/repo'', ''in.mesh'']" Inspect demo_host
      "world_of (script Inspect demo_host (demo_world [''/repo'', ''in.mesh'']))"]
    arguments_are_positional [OF demo_argv, of "[''/repo'', ''in.mesh'', ''out.obj'']" Convert demo_host
      "world_of (script Convert demo_host (demo_world [''/repo'', ''in.mesh'', ''out.obj'']))"]
    raised_world_of [OF demo_Inspect_exit] raised_world_of [OF demo_Convert_exit]
  by (simp add: demo_world_def)

text \<open>
  C7, as amended. When fewer arguments follow \<^verbatim>\<open>"--"\<close> than the connector indexes (two for
  Inspect, three for the others), the run ends abnormally before any import, transform or
  export step: it has written nothing to standard output, left the files and the scene as
  they were, and made no call other than, when there is a first argument, appending it to
  the module search path. The exception is \<^verbatim>\<open>IndexError\<close>, raised by the argument parsing,
  when no argument follows the separator or when \<^verbatim>\<open>Blender_Core\<close> is found on the extended
  search path; otherwise it is \<^verbatim>\<open>ModuleNotFoundError\<close>, raised by the import of
  \<^verbatim>\<open>Blender_Core\<close> at the head of the script.
\<close>

theorem short_argv_raises_before_any_step:
  assumes argv: "sys_argv w = pre @ ''--'' # args" "''--'' \<notin> set pre"
    and short: "length args < required c"
  shows "raised (script c h w) =
           Some (if args = [] \<or> list_ex (\<lambda>dir. has_module h dir ''Blender_Core'') (sys_path w @ [args ! 0])
                 then IndexError else ModuleNotFoundError)
       \<and> stdout (world_of (script c h w)) = stdout w
       \<and> files (world_of (script c h w)) = files w
       \<and> objects (world_of (script c h w)) = objects w
       \<and> new_calls w (world_of (script c h w)) =
            (if args = [] then [] else [Sys_path_append (args ! 0)])"
proof (cases "args = []")
  case True
  then show ?thesis using argv
    by (simp add: step_defs index_of_append new_calls_def)
next
  case False
  show ?thesis
  proof (cases "list_ex (\<lambda>dir. has_module h dir ''Blender_Core'') (sys_path w @ [args ! 0])")
    case no: False
    then show ?thesis using argv False
      by (simp add: step_defs index_of_append new_calls_def)
  next
    case yes: True
    show ?thesis
    proof (cases c)
      case Inspect
      then show ?thesis using argv False yes short
        by (simp add: step_defs index_of_append new_calls_def main_CheckOBJMeshInfo_def)
    next
      case Convert
      then have "length args < 3" using short by simp
      from short_args_cases [OF this False] show ?thesis using argv False yes Convert
        by (auto simp: step_defs index_of_append new_calls_def main_ConvertPLYtoOBJ_def)
    next
      case Simplify
      then have "length args < 3" using short by simp
      from short_args_cases [OF this False] show ?thesis using argv False yes Simplify
        by (auto simp: step_defs index_of_append new_calls_def main_SimplifyOBJ_def)
    next
      case UV_Unwrap
      then have "length args < 3" using short by simp
      from short_args_cases [OF this False] show ?thesis using argv False yes UV_Unwrap
        by (auto simp: step_defs index_of_append new_calls_def main_SmartUVProjectOBJ_def)
    qed
  qed
qed

text \<open>
  The claim as it stands promises \<^verbatim>\<open>IndexError\<close> for every short argument vector. Convert
  with the single argument \<^verbatim>\<open>/wrong\<close>, a directory that does not hold \<^verbatim>\<open>Blender_Core.py\<close>,
  ends in \<^verbatim>\<open>ModuleNotFoundError\<close> instead.
\<close>

theorem short_argv_module_not_found:
  "length [''/wrong''] < required Convert
   \<and> raised (script Convert demo_host (demo_world [''/wrong''])) = Some ModuleNotFoundError"
  by (simp add: step_defs demo_defs)

theorem short_argv_raises_before_any_step_witness:
  "length [''/repo'', ''in.mesh''] < required Convert
   \<and> raised (script Convert demo_host (demo_world [''/repo'', ''in.mesh''])) = Some IndexError
   \<and> stdout (world_of (script Convert demo_host (demo_world [''/repo'', ''in.mesh'']))) = []
   \<and> new_calls (demo_world [''/repo'', ''in.mesh''])
        (world_of (script Convert demo_host (demo_world [''/repo'', ''in.mesh'']))) =
       [Sys_path_append ''/repo'']
   \<and> raised (script Inspect demo_host (demo_world [])) = Some IndexError
   \<and> new_calls (demo_world []) (world_of (script Inspect demo_host (demo_world []))) = []
   \<and> raised (script Simplify demo_host (demo_world [''/elsewhere'', ''in.mesh''])) = Some ModuleNotFoundError
   \<and> files (world_of (script Simplify demo_host (demo_world [''/elsewhere'', ''in.mesh''])))
       = files (demo_world [''/elsewhere'', ''in.mesh''])"
  using short_argv_raises_before_any_step [OF demo_argv, of "[''/repo'', ''in.mesh'']" Convert demo_host]
    short_argv_raises_before_any_step [OF demo_argv, of "[]" Inspect demo_host]
    short_argv_raises_before_any_step [OF demo_argv, of "[''/elsewhere'', ''in.mesh'']" Simplify demo_host]
  by (simp add: demo_world_def demo_host_def)

subsection \<open>Inspect\<close>

lemma Inspect_effects:
  "files (world_of (script Inspect h w)) = files w
   \<and> stderr (world_of (script Inspect h w)) = stderr w
   \<and> filter is_export (new_calls w (world_of (script Inspect h w))) = []
   \<and> emitted w (world_of (script Inspect h w)) =
       (if raised (script Inspect h w) = Some (SystemExit 0)
        then unlines [''FACE_COUNT_OUTPUT:'' @ str (face_count (world_of (script Inspect h w))),
                      ''Mesh currently has '' @ str (face_count (world_of (script Inspect h w))) @ '' faces.'']
        else [])"
proof (cases "index_of ''--'' (sys_argv w)")
  case None
  then show ?thesis
    by (simp add: step_defs new_calls_def emitted_def)
next
  case (Some i)
  define args where "args = drop (i + 1) (sys_argv w)"
  note a = Some args_def [symmetric]
  show ?thesis
  proof (cases "length args < 2")
    case True
    then show ?thesis using a
      by (simp add: step_defs main_CheckOBJMeshInfo_def new_calls_def emitted_def)
  next
    case long: False
    show ?thesis
    proof (cases "files w (args ! 1)")
      case None
      then show ?thesis using a long
        by (simp add: step_defs main_CheckOBJMeshInfo_def new_calls_def emitted_def reset_calls_def)
    next
      case content: (Some content)
      show ?thesis
      proof (cases "read_obj h content")
        case None
        then show ?thesis using a long content
          by (simp add: step_defs main_CheckOBJMeshInfo_def new_calls_def emitted_def reset_calls_def)
      next
        case found: (Some found)
        show ?thesis
        proof (cases "found = []")
          case True
          then show ?thesis using a long content found
            by (simp add: step_defs main_CheckOBJMeshInfo_def new_calls_def emitted_def reset_calls_def)
        next
          case False
          then show ?thesis using a long content found
            by (simp add: step_defs main_CheckOBJMeshInfo_def new_calls_def emitted_def
                reset_calls_def unlines_def face_count_def)
        qed
      qed
    qed
  qed
qed

lemma Inspect_ignores_rest:
  assumes "''--'' \<notin> set pre"
  shows "script Inspect h (w\<lparr>sys_argv := pre @ ''--'' # m # i # rest\<rparr>) =
         with_argv (pre @ ''--'' # m # i # rest)
           (script Inspect h (w\<lparr>sys_argv := pre @ [''--'', m, i]\<rparr>))"
proof (cases "files w i")
  case None
  then show ?thesis using assms index_of_append [of "''--''" pre "m # i # rest"]
      index_of_append [of "''--''" pre "[m, i]"]
    by (simp add: step_defs main_CheckOBJMeshInfo_def reset_calls_def)
next
  case content: (Some content)
  show ?thesis
  proof (cases "read_obj h content")
    case None
    then show ?thesis using assms content index_of_append [of "''--''" pre "m # i # rest"]
      index_of_append [of "''--''" pre "[m, i]"]
      by (simp add: step_defs main_CheckOBJMeshInfo_def reset_calls_def)
  next
    case (Some found)
    then show ?thesis using assms content index_of_append [of "''--''" pre "m # i # rest"]
      index_of_append [of "''--''" pre "[m, i]"]
      by (cases "found = []") (simp_all add: step_defs main_CheckOBJMeshInfo_def reset_calls_def)
  qed
qed

text \<open>
  C8. Every run of Inspect, whatever its outcome, leaves the files and standard error as
  they were and makes no export call. What it writes to standard output is the marker
  line followed by the info line when it ends in \<^verbatim>\<open>SystemExit(0)\<close>, and nothing otherwise.
  It reads no argument after the input path: with further arguments appended, the run is
  the same, up to \<^verbatim>\<open>sys.argv\<close> itself.
\<close>

theorem Inspect_writes_no_file:
  "files (world_of (script Inspect h w)) = files w
   \<and> stderr (world_of (script Inspect h w)) = stderr w
   \<and> filter is_export (new_calls w (world_of (script Inspect h w))) = []
   \<and> emitted w (world_of (script Inspect h w)) =
       (if raised (script Inspect h w) = Some (SystemExit 0)
        then unlines [''FACE_COUNT_OUTPUT:'' @ str (face_count (world_of (script Inspect h w))),
                      ''Mesh currently has '' @ str (face_count (world_of (script Inspect h w))) @ '' faces.'']
        else [])
   \<and> (''--'' \<notin> set pre \<longrightarrow>
        script Inspect h (w\<lparr>sys_argv := pre @ ''--'' # m # i # rest\<rparr>) =
        with_argv (pre @ ''--'' # m # i # rest)
          (script Inspect h (w\<lparr>sys_argv := pre @ [''--'', m, i]\<rparr>)))"
  using Inspect_effects [of h w]
    Inspect_ignores_rest [where pre = pre and h = h and w = w and m = m and i = i and rest = rest]
  by blast

theorem Inspect_writes_no_file_witness:
  "''--'' \<notin> set [''blender'', ''--background'', ''--python'', ''script.py'']
   \<and> script Inspect demo_host (demo_world [''/repo'', ''in.mesh'', ''unused.obj'']) =
       with_argv (sys_argv (demo_world [''/repo'', ''in.mesh'', ''unused.obj'']))
         (script Inspect demo_host (demo_world [''/repo'', ''in.mesh'']))
   \<and> files (world_of (script Inspect demo_host (demo_world [''/repo'', ''in.mesh'']))) =
       files (demo_world [''/repo'', ''in.mesh''])
   \<and> emitted (demo_world [''/repo'', ''in.mesh''])
        (world_of (script Inspect demo_host (demo_world [''/repo'', ''in.mesh'']))) =
       unlines [''FACE_COUNT_OUTPUT:'' @ str 1, ''Mesh currently has '' @ str 1 @ '' faces.'']"
proof -
  let ?pre = "[''blender'', ''--background'', ''--python'', ''script.py'']"
  let ?W = "demo_world [''/repo'', ''in.mesh'']"
  have n: "face_count (world_of (script Inspect demo_host ?W)) = 1"
    by (simp add: ops_defs main_CheckOBJMeshInfo_def demo_defs face_count_def)
  have e1: "(demo_world [])\<lparr>sys_argv := sys_argv (demo_world [''/repo'', ''in.mesh'', ''unused.obj''])\<rparr>
      = demo_world [''/repo'', ''in.mesh'', ''unused.obj'']"
    and e2: "(demo_world [])\<lparr>sys_argv := ?pre @ [''--'', ''/repo'', ''in.mesh'']\<rparr> = ?W"
    and e3: "?pre @ ''--'' # ''/repo'' # ''in.mesh'' # [''unused.obj'']
      = sys_argv (demo_world [''/repo'', ''in.mesh'', ''unused.obj''])"
    by (simp_all add: demo_world_def)
  note t1 = Inspect_writes_no_file [of demo_host ?W ?pre]
  note t2 = Inspect_writes_no_file [of demo_host "demo_world []" ?pre "''/repo''" "''in.mesh''"
      "[''unused.obj'']"]
  have a: "''--'' \<notin> set ?pre"
    by simp
  from t2 a have b: "script Inspect demo_host (demo_world [''/repo'', ''in.mesh'', ''unused.obj'']) =
       with_argv (sys_argv (demo_world [''/repo'', ''in.mesh'', ''unused.obj'']))
         (script Inspect demo_host ?W)"
    unfolding e2 e3 e1 by blast
  from t1 have c: "files (world_of (script Inspect demo_host ?W)) = files ?W"
    by blast
  from t1 have "emitted ?W (world_of (script Inspect demo_host ?W)) =
       (if raised (script Inspect demo_host ?W) = Some (SystemExit 0)
        then unlines [''FACE_COUNT_OUTPUT:'' @ str (face_count (world_of (script Inspect demo_host ?W))),
                      ''Mesh currently has '' @ str (face_count (world_of (script Inspect demo_host ?W))) @ '' faces.'']
        else [])"
    by blast
  then have d: "emitted ?W (world_of (script Inspect demo_host ?W)) =
       unlines [''FACE_COUNT_OUTPUT:'' @ str 1, ''Mesh currently has '' @ str 1 @ '' faces.'']"
    unfolding demo_Inspect_exit n by (simp only: simp_thms if_True)
  from a b c d show ?thesis by blast
qed

text \<open>
  C9. Two runs of Inspect on the same host that both end in \<^verbatim>\<open>SystemExit(0)\<close> and whose input
  paths hold the same file content write the same text to standard output, with the same
  face count in the marker line, whatever else differs between the two starting worlds
  (the scene, the other arguments, earlier output, other files).
\<close>

theorem Inspect_same_file_same_count:
  assumes run1: "script Inspect h w1 = Raise (SystemExit 0) w1'"
    and run2: "script Inspect h w2 = Raise (SystemExit 0) w2'"
    and argv1: "sys_argv w1 = pre1 @ ''--'' # args1" "''--'' \<notin> set pre1"
    and argv2: "sys_argv w2 = pre2 @ ''--'' # args2" "''--'' \<notin> set pre2"
    and same: "files w1 (args1 ! 1) = files w2 (args2 ! 1)"
  shows "face_count w1' = face_count w2'
       \<and> emitted w1 w1' = emitted w2 w2'
       \<and> marker_lines (emitted w1 w1') = [''FACE_COUNT_OUTPUT:'' @ str (face_count w1')]
       \<and> marker_lines (emitted w2 w2') = [''FACE_COUNT_OUTPUT:'' @ str (face_count w1')]"
proof -
  from Inspect_success [OF run1 argv1]
  obtain content1 found1 where f1: "files w1 (args1 ! 1) = Some content1"
      "read_obj h content1 = Some found1" "found1 \<noteq> []"
    and out1: "emitted w1 w1' = unlines
               [''FACE_COUNT_OUTPUT:'' @ str (length (polygons (fst (hd found1)))),
                ''Mesh currently has '' @ str (length (polygons (fst (hd found1)))) @ '' faces.'']"
    and objs1: "objects w1' = map imported found1"
    by (auto simp: emitted_def)
  from Inspect_success [OF run2 argv2]
  obtain content2 found2 where f2: "files w2 (args2 ! 1) = Some content2"
      "read_obj h content2 = Some found2" "found2 \<noteq> []"
    and out2: "emitted w2 w2' = unlines
               [''FACE_COUNT_OUTPUT:'' @ str (length (polygons (fst (hd found2)))),
                ''Mesh currently has '' @ str (length (polygons (fst (hd found2)))) @ '' faces.'']"
    and objs2: "objects w2' = map imported found2"
    by (auto simp: emitted_def)
  have eq: "found1 = found2"
    using f1 f2 same by simp
  have n1: "face_count w1' = length (polygons (fst (hd found1)))"
    using f1 by (simp add: objs1 face_count_def imported_def hd_conv_nth)
  have n2: "face_count w2' = length (polygons (fst (hd found2)))"
    using f2 by (simp add: objs2 face_count_def imported_def hd_conv_nth)
  have m: "marker_lines (emitted w1 w1') = [''FACE_COUNT_OUTPUT:'' @ str (face_count w1')]"
    unfolding out1 n1
    by (subst marker_lines_unlines) (simp_all add: str_no_newline [unfolded newline_def] newline_def)
  show ?thesis
    using m n1 n2 out1 out2 unfolding eq by simp
qed

theorem Inspect_same_file_same_count_witness:
  "emitted (demo_world [''/repo'', ''in.mesh''])
     (world_of (script Inspect demo_host (demo_world [''/repo'', ''in.mesh'']))) =
   emitted (world_of (script Inspect demo_host (demo_world [''/repo'', ''in.mesh''])))
     (world_of (script Inspect demo_host
        (world_of (script Inspect demo_host (demo_world [''/repo'', ''in.mesh''])))))
   \<and> marker_lines (emitted (world_of (script Inspect demo_host (demo_world [''/repo'', ''in.mesh''])))
     (world_of (script Inspect demo_host
        (world_of (script Inspect demo_host (demo_world [''/repo'', ''in.mesh'']))))))
     = [''FACE_COUNT_OUTPUT:'' @ str 1]"
proof -
  let ?W = "demo_world [''/repo'', ''in.mesh'']"
  let ?W1 = "world_of (script Inspect demo_host ?W)"
  let ?W2 = "world_of (script Inspect demo_host ?W1)"
  have n: "face_count ?W1 = 1"
    by (simp add: ops_defs main_CheckOBJMeshInfo_def demo_defs face_count_def)
  have same: "files ?W ([''/repo'', ''in.mesh''] ! 1) = files ?W1 ([''/repo'', ''in.mesh''] ! 1)"
    by (simp add: demo_Inspect_again)
  note t = Inspect_same_file_same_count [OF raised_world_of [OF demo_Inspect_exit]
        raised_world_of [OF demo_Inspect_again(1)] demo_argv demo_Inspect_again(2) demo_argv(2) same]
  from t have a: "emitted ?W ?W1 = emitted ?W1 ?W2"
    by blast
  from t have "marker_lines (emitted ?W1 ?W2) = [''FACE_COUNT_OUTPUT:'' @ str (face_count ?W1)]"
    by blast
  then have b: "marker_lines (emitted ?W1 ?W2) = [''FACE_COUNT_OUTPUT:'' @ str 1]"
    unfolding n .
  from a b show ?thesis by blast
qed

subsection \<open>Simplify: the modifier read at index 0\<close>

lemma Simplify_fresh_reads:
  "fresh_reads h (new_calls w (world_of (script Simplify h w)))"
proof (cases "index_of ''--'' (sys_argv w)")
  case None
  then show ?thesis
    by (simp add: step_defs new_calls_def fresh_reads_def)
next
  case (Some i)
  define args where "args = drop (i + 1) (sys_argv w)"
  note a = Some args_def [symmetric]
  show ?thesis
  proof (cases "length args < 3")
    case True
    then show ?thesis using a
      by (simp add: step_defs main_SimplifyOBJ_def new_calls_def reset_calls_def fresh_read_def fresh_reads_def)
  next
    case long: False
    show ?thesis
    proof (cases "files w (args ! 1)")
      case None
      then show ?thesis using a long
        by (simp add: step_defs main_SimplifyOBJ_def new_calls_def reset_calls_def fresh_read_def fresh_reads_def)
    next
      case content: (Some content)
      show ?thesis
      proof (cases "read_obj h content")
        case None
        then show ?thesis using a long content
          by (simp add: step_defs main_SimplifyOBJ_def new_calls_def reset_calls_def fresh_read_def fresh_reads_def)
      next
        case found: (Some found)
        show ?thesis
        proof (cases "found = []")
          case True
          then show ?thesis using a long content found
            by (simp add: step_defs main_SimplifyOBJ_def new_calls_def reset_calls_def fresh_read_def fresh_reads_def)
        next
          case False
          then show ?thesis using a long content found
            by (simp add: step_defs main_SimplifyOBJ_def new_calls_def reset_calls_def
                imported_def hd_conv_nth new_modifier_def default_name_def fresh_read_def fresh_reads_def)
        qed
      qed
    qed
  qed
qed

text \<open>
  C10. In every run of Simplify, whatever its outcome, each evaluation of \<^verbatim>\<open>modifiers[0]\<close>
  comes right after a \<^verbatim>\<open>modifier_add\<close> and sees a stack of exactly one modifier, the one that
  call created. In a run that ends in \<^verbatim>\<open>SystemExit(0)\<close> there are two such evaluations; the
  Decimate modifier is applied, and so leaves the stack, before the Triangulate modifier is
  added, and the stack is empty at the end.
\<close>

theorem Simplify_reads_fresh_modifier:
  "fresh_reads h (new_calls w (world_of (script Simplify h w)))
   \<and> (raised (script Simplify h w) = Some (SystemExit 0) \<longrightarrow>
        filter (\<lambda>c. is_stack_read c \<or> is_transform c) (new_calls w (world_of (script Simplify h w))) =
          [Modifier_add DECIMATE,
           Read_modifiers 0 0 [new_modifier h DECIMATE []],
           Set_decimate_type 0 ''Decimate'' ''DISSOLVE'',
           Set_angle_limit 0 ''Decimate'' 0.0872665,
           Modifier_apply ''DATA'' ''Decimate'',
           Modifier_add TRIANGULATE,
           Read_modifiers 0 0 [new_modifier h TRIANGULATE []],
           Modifier_apply ''DATA'' ''Triangulate'']
      \<and> modifiers (objects (world_of (script Simplify h w)) ! 0) = [])"
proof (intro conjI impI)
  show "fresh_reads h (new_calls w (world_of (script Simplify h w)))"
    by (rule Simplify_fresh_reads)
next
  assume ok: "raised (script Simplify h w) = Some (SystemExit 0)"
  from success_argv [OF raised_world_of [OF ok]]
  obtain pre args where argv: "sys_argv w = pre @ ''--'' # args" "''--'' \<notin> set pre"
    by blast
  from Simplify_success [OF raised_world_of [OF ok] argv]
  show "filter (\<lambda>c. is_stack_read c \<or> is_transform c) (new_calls w (world_of (script Simplify h w))) =
          [Modifier_add DECIMATE,
           Read_modifiers 0 0 [new_modifier h DECIMATE []],
           Set_decimate_type 0 ''Decimate'' ''DISSOLVE'',
           Set_angle_limit 0 ''Decimate'' 0.0872665,
           Modifier_apply ''DATA'' ''Decimate'',
           Modifier_add TRIANGULATE,
           Read_modifiers 0 0 [new_modifier h TRIANGULATE []],
           Modifier_apply ''DATA'' ''Triangulate'']"
    and "modifiers (objects (world_of (script Simplify h w)) ! 0) = []"
    by (auto simp: new_calls_def reset_calls_def imported_def)
qed

theorem Simplify_reads_fresh_modifier_witness:
  "filter is_stack_read (new_calls (demo_world [''/repo'', ''in.mesh'', ''out.obj''])
      (world_of (script Simplify demo_host (demo_world [''/repo'', ''in.mesh'', ''out.obj''])))) =
     [Read_modifiers 0 0 [\<lparr>name = ''Decimate'', mod_type = DECIMATE, decimate_type = ''COLLAPSE'',
                            angle_limit = 0.0872665\<rparr>],
      Read_modifiers 0 0 [\<lparr>name = ''Triangulate'', mod_type = TRIANGULATE, decimate_type = ''COLLAPSE'',
                            angle_limit = 0.0872665\<rparr>]]"
proof -
  let ?W = "demo_world [''/repo'', ''in.mesh'', ''out.obj'']"
  from Simplify_reads_fresh_modifier [of demo_host ?W] demo_Simplify_exit
  have f: "filter (\<lambda>c. is_stack_read c \<or> is_transform c)
             (new_calls ?W (world_of (script Simplify demo_host ?W))) =
          [Modifier_add DECIMATE,
           Read_modifiers 0 0 [new_modifier demo_host DECIMATE []],
           Set_decimate_type 0 ''Decimate'' ''DISSOLVE'',
           Set_angle_limit 0 ''Decimate'' 0.0872665,
           Modifier_apply ''DATA'' ''Decimate'',
           Modifier_add TRIANGULATE,
           Read_modifiers 0 0 [new_modifier demo_host TRIANGULATE []],
           Modifier_apply ''DATA'' ''Triangulate'']"
    by blast
  show ?thesis
    unfolding filter_reads [of "new_calls ?W (world_of (script Simplify demo_host ?W))", symmetric] f
    by (simp add: new_modifier_def default_name_def demo_host_def)
qed

end
